theory Spec2Isabelle
  imports Complex_Main
begin

section \<open>The weather plugin (src/plugins/weather\_custom/weather\_custom.py)\<close>

text \<open>
  A shallow embedding of the plugin's \<^verbatim>\<open>Weather\<close> class. The values the plugin handles
  come from \<^verbatim>\<open>response.json()\<close> and from the settings dictionary, so they are dynamically
  typed: the model keeps Python's value universe for them and turns every exception the
  interpreter would raise into a branch \<open>Inl\<close> of the result.

  Floats are modelled by the rational number they denote. Comparison with an integer,
  \<^verbatim>\<open>round\<close>, \<^verbatim>\<open>int\<close> and the \<^verbatim>\<open>.2f\<close> format are exact functions of that number, so the
  model agrees with Python on every finite float; NaN, the infinities and the sign of a
  negative zero are not represented. Strings are byte lists, read as ASCII text.
\<close>

subsection \<open>Python values and exceptions\<close>

datatype pyval =
    PNone
  | PBool bool
  | PInt int
  | PFloat rat
  | PStr string
  | PList "pyval list"
  | PDict "(string \<times> pyval) list"

datatype pyerror =
    KeyError
  | IndexError
  | TypeError
  | ValueError
  | AttributeError
  | RuntimeError string
  | ConnectionError
  | JSONDecodeError
  | UnknownTimeZoneError

text \<open>Sequencing of a computation that may raise: the first exception aborts what follows.\<close>

definition bind :: "pyerror + 'a \<Rightarrow> ('a \<Rightarrow> pyerror + 'b) \<Rightarrow> pyerror + 'b" where
  "bind m f = (case m of Inl e \<Rightarrow> Inl e | Inr x \<Rightarrow> f x)"

text \<open>Truth value of an object, as \<^verbatim>\<open>if x\<close> and \<^verbatim>\<open>not x\<close> test it.\<close>

fun truthy :: "pyval \<Rightarrow> bool" where
  "truthy PNone = False"
| "truthy (PBool b) = b"
| "truthy (PInt n) = (n \<noteq> 0)"
| "truthy (PFloat q) = (q \<noteq> 0)"
| "truthy (PStr s) = (s \<noteq> [])"
| "truthy (PList xs) = (xs \<noteq> [])"
| "truthy (PDict kvs) = (kvs \<noteq> [])"

text \<open>The number an object denotes in arithmetic and comparisons (\<^verbatim>\<open>bool\<close> is a subclass
  of \<^verbatim>\<open>int\<close>); \<open>None\<close> for the objects that are not numbers.\<close>

fun number :: "pyval \<Rightarrow> rat option" where
  "number (PBool b) = Some (if b then 1 else 0)"
| "number (PInt n) = Some (of_int n)"
| "number (PFloat q) = Some q"
| "number _ = None"

text \<open>\<^verbatim>\<open>x <= n\<close> for an integer literal \<^verbatim>\<open>n\<close>: a \<^verbatim>\<open>TypeError\<close> unless \<^verbatim>\<open>x\<close> is a number.\<close>

definition le_int :: "pyval \<Rightarrow> int \<Rightarrow> pyerror + bool" where
  "le_int x n = (case number x of None \<Rightarrow> Inl TypeError | Some q \<Rightarrow> Inr (q \<le> of_int n))"

subsection \<open>Subscripts and lengths\<close>

text \<open>\<^verbatim>\<open>x["key"]\<close>: a lookup in a dictionary; every other object refuses a string
  subscript.\<close>

fun getitem_key :: "pyval \<Rightarrow> string \<Rightarrow> pyerror + pyval" where
  "getitem_key (PDict kvs) k = (case map_of kvs k of None \<Rightarrow> Inl KeyError | Some v \<Rightarrow> Inr v)"
| "getitem_key _ k = Inl TypeError"

text \<open>\<^verbatim>\<open>x[i]\<close> for a non-negative integer \<^verbatim>\<open>i\<close>. A list or a string raises
  \<^verbatim>\<open>IndexError\<close> out of range; a dictionary decoded from JSON has string keys only, so an
  integer key is missing.\<close>

fun getitem_idx :: "pyval \<Rightarrow> nat \<Rightarrow> pyerror + pyval" where
  "getitem_idx (PList xs) i = (if i < length xs then Inr (xs ! i) else Inl IndexError)"
| "getitem_idx (PStr s) i = (if i < length s then Inr (PStr [s ! i]) else Inl IndexError)"
| "getitem_idx (PDict kvs) i = Inl KeyError"
| "getitem_idx _ i = Inl TypeError"

fun py_len :: "pyval \<Rightarrow> pyerror + nat" where
  "py_len (PList xs) = Inr (length xs)"
| "py_len (PStr s) = Inr (length s)"
| "py_len (PDict kvs) = Inr (length (remdups (map fst kvs)))"
| "py_len _ = Inl TypeError"

text \<open>\<^verbatim>\<open>x["key"][i]\<close>\<close>

definition item :: "pyval \<Rightarrow> string \<Rightarrow> nat \<Rightarrow> pyerror + pyval" where
  "item x k i = bind (getitem_key x k) (\<lambda>xs. getitem_idx xs i)"

subsection \<open>Numbers: rounding, truncation, decimal text\<close>

text \<open>\<^verbatim>\<open>round(x)\<close> of a float goes to the nearest integer, a tie to the even one.\<close>

definition round_half_even :: "rat \<Rightarrow> int" where
  "round_half_even q =
     (let f = \<lfloor>q\<rfloor>; d = q - of_int f
      in if d < 1 / 2 then f
         else if 1 / 2 < d then f + 1
         else if even f then f else f + 1)"

text \<open>\<^verbatim>\<open>int(x)\<close> of a float drops the fraction, towards zero.\<close>

definition trunc_zero :: "rat \<Rightarrow> int" where
  "trunc_zero q = (if 0 \<le> q then \<lfloor>q\<rfloor> else \<lceil>q\<rceil>)"

fun py_round :: "pyval \<Rightarrow> pyerror + int" where
  "py_round (PBool b) = Inr (if b then 1 else 0)"
| "py_round (PInt n) = Inr n"
| "py_round (PFloat q) = Inr (round_half_even q)"
| "py_round _ = Inl TypeError"

definition digit_char :: "nat \<Rightarrow> char" where
  "digit_char d = ''0123456789'' ! (d mod 10)"

fun show_nat :: "nat \<Rightarrow> string" where
  "show_nat n = (if n < 10 then [digit_char n] else show_nat (n div 10) @ [digit_char (n mod 10)])"

declare show_nat.simps [simp del]

definition show_int :: "int \<Rightarrow> string" where
  "show_int i = (if i < 0 then ''-'' @ show_nat (nat (- i)) else show_nat (nat i))"

text \<open>A number in at least two digits, as \<^verbatim>\<open>%02d\<close>, \<^verbatim>\<open>%I\<close>, \<^verbatim>\<open>%M\<close> and \<^verbatim>\<open>%d\<close> print it.\<close>

definition pad2 :: "nat \<Rightarrow> string" where
  "pad2 n = (if n < 10 then ''0'' @ show_nat n else show_nat n)"

text \<open>The format \<^verbatim>\<open>.2f\<close>: the value rounded to hundredths (a tie to the even hundredth),
  with the sign of the value itself.\<close>

definition fmt_2f :: "rat \<Rightarrow> string" where
  "fmt_2f q =
     (let n = nat (round_half_even (\<bar>q\<bar> * 100))
      in (if q < 0 then ''-'' else []) @ show_nat (n div 100) @ ''.'' @ pad2 (n mod 100))"

fun format_2f :: "pyval \<Rightarrow> pyerror + string" where
  "format_2f (PBool b) = Inr (fmt_2f (if b then 1 else 0))"
| "format_2f (PInt n) = Inr (fmt_2f (of_int n))"
| "format_2f (PFloat q) = Inr (fmt_2f q)"
| "format_2f (PStr s) = Inl ValueError"
| "format_2f _ = Inl TypeError"

subsection \<open>Dates and times\<close>

text \<open>
  A \<^verbatim>\<open>datetime\<close> object, reduced to the fields the plugin prints. Python builds only
  valid objects (\<open>valid_datetime\<close>). The weekday follows \<^verbatim>\<open>datetime.weekday()\<close>: the
  proleptic Gregorian ordinal of the date plus 6, modulo 7, Monday being 0.
\<close>

record datetime =
  dt_year :: nat
  dt_month :: nat
  dt_day :: nat
  dt_hour :: nat
  dt_minute :: nat

definition is_leap :: "nat \<Rightarrow> bool" where
  "is_leap y = (y mod 4 = 0 \<and> (y mod 100 \<noteq> 0 \<or> y mod 400 = 0))"

definition days_in_month :: "nat \<Rightarrow> nat \<Rightarrow> nat" where
  "days_in_month y m =
     (if m = 2 \<and> is_leap y then 29 else [31, 28, 31, 30, 31, 30, 31, 31, 30, 31, 30, 31] ! ((m - 1) mod 12))"

definition valid_datetime :: "datetime \<Rightarrow> bool" where
  "valid_datetime d =
     (1 \<le> dt_year d \<and> dt_year d \<le> 9999 \<and> 1 \<le> dt_month d \<and> dt_month d \<le> 12 \<and>
      1 \<le> dt_day d \<and> dt_day d \<le> days_in_month (dt_year d) (dt_month d) \<and>
      dt_hour d < 24 \<and> dt_minute d < 60)"

text \<open>The day after a date, on the calendar: the reference the weekday is checked against.\<close>

definition next_day :: "datetime \<Rightarrow> datetime" where
  "next_day d =
     (if dt_day d < days_in_month (dt_year d) (dt_month d) then d\<lparr>dt_day := dt_day d + 1\<rparr>
      else if dt_month d < 12 then d\<lparr>dt_month := dt_month d + 1, dt_day := 1\<rparr>
      else d\<lparr>dt_year := dt_year d + 1, dt_month := 1, dt_day := 1\<rparr>)"

definition days_before_year :: "nat \<Rightarrow> nat" where
  "days_before_year y =
     (let y1 = y - 1 in y1 * 365 + y1 div 4 + y1 div 400 - y1 div 100)"

definition days_before_month :: "nat \<Rightarrow> nat \<Rightarrow> nat" where
  "days_before_month y m =
     [0, 31, 59, 90, 120, 151, 181, 212, 243, 273, 304, 334] ! ((m - 1) mod 12)
       + (if 2 < m \<and> is_leap y then 1 else 0)"

definition toordinal :: "datetime \<Rightarrow> nat" where
  "toordinal d = days_before_year (dt_year d) + days_before_month (dt_year d) (dt_month d) + dt_day d"

definition weekday :: "datetime \<Rightarrow> nat" where
  "weekday d = (toordinal d + 6) mod 7"

definition day_names :: "string list" where
  "day_names = [''Monday'', ''Tuesday'', ''Wednesday'', ''Thursday'', ''Friday'', ''Saturday'', ''Sunday'']"

definition month_names :: "string list" where
  "month_names = [''January'', ''February'', ''March'', ''April'', ''May'', ''June'', ''July'',
     ''August'', ''September'', ''October'', ''November'', ''December'']"

text \<open>The hour on the 12-hour clock (\<^verbatim>\<open>%I\<close>) and the half of the day (\<^verbatim>\<open>%p\<close>).\<close>

definition hour12 :: "datetime \<Rightarrow> nat" where
  "hour12 d = (if dt_hour d mod 12 = 0 then 12 else dt_hour d mod 12)"

text \<open>The \<^verbatim>\<open>strftime\<close> formats of the plugin, in the C locale:
  \<^verbatim>\<open>%p\<close>, \<^verbatim>\<open>%I:%M\<close>, \<^verbatim>\<open>%-I %p\<close>, \<^verbatim>\<open>%a\<close> and \<^verbatim>\<open>%A, %B %d\<close>.\<close>

definition strftime_p :: "datetime \<Rightarrow> string" where
  "strftime_p d = (if dt_hour d < 12 then ''AM'' else ''PM'')"

definition strftime_I_M :: "datetime \<Rightarrow> string" where
  "strftime_I_M d = pad2 (hour12 d) @ '':'' @ pad2 (dt_minute d)"

definition strftime_I_p :: "datetime \<Rightarrow> string" where
  "strftime_I_p d = show_nat (hour12 d) @ '' '' @ strftime_p d"

definition strftime_a :: "datetime \<Rightarrow> string" where
  "strftime_a d = take 3 (day_names ! weekday d)"

definition strftime_A_B_d :: "datetime \<Rightarrow> string" where
  "strftime_A_B_d d =
     day_names ! weekday d @ '', '' @ month_names ! ((dt_month d - 1) mod 12) @ '' '' @ pad2 (dt_day d)"

text \<open>\<^verbatim>\<open>s.lstrip("0")\<close> removes every leading \<^verbatim>\<open>0\<close> character.\<close>

definition lstrip0 :: "string \<Rightarrow> string" where
  "lstrip0 s = dropWhile (\<lambda>c. c = CHR ''0'') s"

subsection \<open>What the plugin takes from outside\<close>

text \<open>
  The parsers call three functions that this file does not define:
  \<^verbatim>\<open>datetime.fromisoformat\<close> on a string, \<^verbatim>\<open>int\<close> on a string, and
  \<^verbatim>\<open>BasePlugin.get_plugin_dir\<close>. They are parameters of the model. A time zone is
  modelled by what \<^verbatim>\<open>astimezone\<close> does with it: a map from the parsed time to the
  local one.
\<close>

record pylib =
  fromisoformat :: "string \<Rightarrow> pyerror + datetime"
  int_of_str :: "string \<Rightarrow> pyerror + int"
  get_plugin_dir :: "string \<Rightarrow> string"

type_synonym tzinfo = "datetime \<Rightarrow> datetime"

text \<open>\<^verbatim>\<open>datetime.fromisoformat(x).astimezone(tz)\<close>\<close>

fun localtime :: "pylib \<Rightarrow> tzinfo \<Rightarrow> pyval \<Rightarrow> pyerror + datetime" where
  "localtime lib tz (PStr s) = bind (fromisoformat lib s) (\<lambda>d. Inr (tz d))"
| "localtime lib tz _ = Inl TypeError"

text \<open>\<^verbatim>\<open>int(x)\<close>\<close>

fun py_int :: "pylib \<Rightarrow> pyval \<Rightarrow> pyerror + int" where
  "py_int lib (PBool b) = Inr (if b then 1 else 0)"
| "py_int lib (PInt n) = Inr n"
| "py_int lib (PFloat q) = Inr (trunc_zero q)"
| "py_int lib (PStr s) = int_of_str lib s"
| "py_int lib _ = Inl TypeError"

subsection \<open>The icon table\<close>

definition WEATHER_CODE_ICONS :: "(int \<times> string) list" where
  "WEATHER_CODE_ICONS =
     [(0, ''01d''), (1, ''02d''), (2, ''03d''), (3, ''04d''),
      (45, ''50d''), (48, ''50d''),
      (51, ''09d''), (53, ''09d''), (55, ''09d''), (56, ''09d''), (57, ''09d''),
      (61, ''10d''), (63, ''10d''), (65, ''10d''),
      (66, ''13d''), (67, ''13d''),
      (71, ''13d''), (73, ''13d''), (75, ''13d''), (77, ''13d''),
      (80, ''09d''), (81, ''09d''), (82, ''09d''),
      (85, ''13d''), (86, ''13d''),
      (95, ''11d''), (96, ''11d''), (99, ''11d'')]"

text \<open>
  The integer a dictionary with integer keys finds a key object under: equal numbers are
  the same key (\<^verbatim>\<open>61.0\<close> and \<^verbatim>\<open>61\<close>, \<^verbatim>\<open>True\<close> and \<^verbatim>\<open>1\<close>), \<^verbatim>\<open>None\<close> and strings equal
  no integer, and a list or a dictionary is unhashable.
\<close>

fun int_key :: "pyval \<Rightarrow> pyerror + int option" where
  "int_key (PBool b) = Inr (Some (if b then 1 else 0))"
| "int_key (PInt n) = Inr (Some n)"
| "int_key (PFloat q) = Inr (if of_int \<lfloor>q\<rfloor> = q then Some \<lfloor>q\<rfloor> else None)"
| "int_key PNone = Inr None"
| "int_key (PStr s) = Inr None"
| "int_key _ = Inl TypeError"

text \<open>\<^verbatim>\<open>WEATHER_CODE_ICONS.get(code, "01d")\<close>\<close>

definition icon_for :: "pyval \<Rightarrow> pyerror + string" where
  "icon_for code =
     bind (int_key code) (\<lambda>k.
       case k of
         None \<Rightarrow> Inr ''01d''
       | Some n \<Rightarrow> (case map_of WEATHER_CODE_ICONS n of None \<Rightarrow> Inr ''01d'' | Some icon \<Rightarrow> Inr icon))"

text \<open>\<^verbatim>\<open>self.get_plugin_dir(f"icons/{icon}.png")\<close>\<close>

definition icon_path :: "pylib \<Rightarrow> string \<Rightarrow> string" where
  "icon_path lib icon = get_plugin_dir lib (''icons/'' @ icon @ ''.png'')"

subsection \<open>Loops that fill a list\<close>

text \<open>\<^verbatim>\<open>for i in range(i, n): acc.append(body(i))\<close>; an exception in the body ends the loop.\<close>

function for_range :: "(nat \<Rightarrow> pyerror + 'a) \<Rightarrow> nat \<Rightarrow> nat \<Rightarrow> 'a list \<Rightarrow> pyerror + 'a list" where
  "for_range body i n acc =
     (if i < n
      then (case body i of Inl e \<Rightarrow> Inl e | Inr x \<Rightarrow> for_range body (Suc i) n (acc @ [x]))
      else Inr acc)"
  by pat_completeness auto
termination
  by (relation "measure (\<lambda>(body, i, n, acc). n - i)") auto

declare for_range.simps [simp del]

subsection \<open>The daily forecast\<close>

record forecast_entry =
  fc_day :: string
  fc_high :: int
  fc_low :: int
  fc_icon :: string

text \<open>The body of the loop of \<^verbatim>\<open>parse_forecast\<close> at index \<open>i\<close>.\<close>

definition forecast_day :: "pylib \<Rightarrow> pyval \<Rightarrow> tzinfo \<Rightarrow> nat \<Rightarrow> pyerror + forecast_entry" where
  "forecast_day lib daily tz i =
     bind (item daily ''time'' i) (\<lambda>t.
     bind (localtime lib tz t) (\<lambda>dt.
     bind (item daily ''weathercode'' i) (\<lambda>code.
     bind (icon_for code) (\<lambda>icon.
     bind (item daily ''temperature_2m_max'' i) (\<lambda>hi.
     bind (py_int lib hi) (\<lambda>high.
     bind (item daily ''temperature_2m_min'' i) (\<lambda>lo.
     bind (py_int lib lo) (\<lambda>low.
       Inr \<lparr>fc_day = strftime_a dt, fc_high = high, fc_low = low,
            fc_icon = icon_path lib icon\<rparr>))))))))"

definition parse_forecast :: "pylib \<Rightarrow> pyval \<Rightarrow> tzinfo \<Rightarrow> pyerror + forecast_entry list" where
  "parse_forecast lib daily tz =
     bind (getitem_key daily ''time'') (\<lambda>times.
     bind (py_len times) (\<lambda>n.
       for_range (forecast_day lib daily tz) 1 (min n 6) []))"

subsection \<open>The hourly forecast\<close>

record hourly_entry =
  h_time :: string
  h_temperature :: int
  h_precipitiation :: pyval

definition hourly_hour :: "pylib \<Rightarrow> pyval \<Rightarrow> tzinfo \<Rightarrow> nat \<Rightarrow> pyerror + hourly_entry" where
  "hourly_hour lib hourly tz i =
     bind (item hourly ''time'' i) (\<lambda>t.
     bind (localtime lib tz t) (\<lambda>dt.
     bind (item hourly ''temperature_2m'' i) (\<lambda>temp.
     bind (py_round temp) (\<lambda>rounded.
     bind (item hourly ''rain'' i) (\<lambda>rain.
       Inr \<lparr>h_time = strftime_I_p dt, h_temperature = rounded, h_precipitiation = rain\<rparr>)))))"

definition parse_hourly :: "pylib \<Rightarrow> pyval \<Rightarrow> tzinfo \<Rightarrow> pyerror + hourly_entry list" where
  "parse_hourly lib hourly tz = for_range (hourly_hour lib hourly tz) 0 24 []"

subsection \<open>AQI bands\<close>

definition get_aqi_description :: "pyval \<Rightarrow> pyerror + string" where
  "get_aqi_description aqi =
     bind (le_int aqi 20) (\<lambda>b20.
       if b20 then Inr ''Good''
       else bind (le_int aqi 40) (\<lambda>b40.
         if b40 then Inr ''Fair''
         else bind (le_int aqi 60) (\<lambda>b60.
           if b60 then Inr ''Moderate''
           else bind (le_int aqi 80) (\<lambda>b80.
             if b80 then Inr ''Poor''
             else Inr ''Very Poor''))))"

subsection \<open>Effects: requests issued and records logged\<close>

text \<open>
  The plugin acts on the outside by HTTP requests and by log records. The state lists
  both in the order they happen. A log record keeps the literal text of the message and
  the value interpolated after it.
\<close>

datatype log_record =
    LogError string string
  | LogWarning string pyerror

record state =
  requested :: "string list"
  logged :: "log_record list"

definition log_error :: "string \<Rightarrow> string \<Rightarrow> state \<Rightarrow> state" where
  "log_error msg content st = st\<lparr>logged := logged st @ [LogError msg content]\<rparr>"

definition log_warning :: "string \<Rightarrow> pyerror \<Rightarrow> state \<Rightarrow> state" where
  "log_warning msg e st = st\<lparr>logged := logged st @ [LogWarning msg e]\<rparr>"

subsection \<open>The data points\<close>

record data_point =
  dp_label :: string
  dp_measurement :: pyval
  dp_unit :: string
  dp_icon :: string

text \<open>The list literal of \<^verbatim>\<open>parse_data_points\<close>: seven entries, evaluated in order.\<close>

definition base_data_points :: "pylib \<Rightarrow> pyval \<Rightarrow> pyval \<Rightarrow> tzinfo \<Rightarrow> pyerror + data_point list" where
  "base_data_points lib current daily tz =
     bind (item daily ''sunrise'' 0) (\<lambda>sunrise.
     bind (localtime lib tz sunrise) (\<lambda>sunrise_dt.
     bind (item daily ''sunset'' 0) (\<lambda>sunset.
     bind (localtime lib tz sunset) (\<lambda>sunset_dt.
     bind (getitem_key current ''wind_speed_10m'') (\<lambda>wind.
     bind (py_round wind) (\<lambda>wind_rounded.
     bind (getitem_key current ''relative_humidity_2m'') (\<lambda>humidity.
     bind (getitem_key current ''pressure_msl'') (\<lambda>pressure.
     bind (item daily ''uv_index_max'' 0) (\<lambda>uv.
     bind (getitem_key current ''rain'') (\<lambda>rain.
       Inr [\<lparr>dp_label = ''Sunrise'', dp_measurement = PStr (lstrip0 (strftime_I_M sunrise_dt)),
              dp_unit = strftime_p sunrise_dt, dp_icon = get_plugin_dir lib ''icons/sunrise.png''\<rparr>,
            \<lparr>dp_label = ''Sunset'', dp_measurement = PStr (lstrip0 (strftime_I_M sunset_dt)),
              dp_unit = strftime_p sunset_dt, dp_icon = get_plugin_dir lib ''icons/sunset.png''\<rparr>,
            \<lparr>dp_label = ''Wind'', dp_measurement = PInt wind_rounded,
              dp_unit = ''km/h'', dp_icon = get_plugin_dir lib ''icons/wind.png''\<rparr>,
            \<lparr>dp_label = ''Humidity'', dp_measurement = humidity,
              dp_unit = ''%'', dp_icon = get_plugin_dir lib ''icons/humidity.png''\<rparr>,
            \<lparr>dp_label = ''Pressure'', dp_measurement = pressure,
              dp_unit = ''hPa'', dp_icon = get_plugin_dir lib ''icons/pressure.png''\<rparr>,
            \<lparr>dp_label = ''UV Index'', dp_measurement = uv,
              dp_unit = [], dp_icon = get_plugin_dir lib ''icons/uvi.png''\<rparr>,
            \<lparr>dp_label = ''Rain'', dp_measurement = rain,
              dp_unit = ''mm'', dp_icon = get_plugin_dir lib ''icons/rain.png''\<rparr>]))))))))))"

text \<open>The body of the \<^verbatim>\<open>try\<close> block: the entry that is appended when nothing raises.\<close>

definition aqi_data_point :: "pylib \<Rightarrow> pyval \<Rightarrow> pyerror + data_point" where
  "aqi_data_point lib air_quality =
     bind (getitem_key air_quality ''hourly'') (\<lambda>hourly.
     bind (item hourly ''european_aqi'' 0) (\<lambda>aqi.
     bind (get_aqi_description aqi) (\<lambda>aqi_label.
     bind (py_int lib aqi) (\<lambda>value.
       Inr \<lparr>dp_label = ''Air Quality'', dp_measurement = PInt value,
            dp_unit = aqi_label, dp_icon = get_plugin_dir lib ''icons/aqi.png''\<rparr>))))"

definition parse_data_points ::
  "pylib \<Rightarrow> pyval \<Rightarrow> pyval \<Rightarrow> tzinfo \<Rightarrow> pyval \<Rightarrow> state \<Rightarrow> (pyerror + data_point list) \<times> state" where
  "parse_data_points lib current daily tz air_quality st =
     (case base_data_points lib current daily tz of
        Inl e \<Rightarrow> (Inl e, st)
      | Inr data_points \<Rightarrow>
          if truthy air_quality
          then (case aqi_data_point lib air_quality of
                  Inr p \<Rightarrow> (Inr (data_points @ [p]), st)
                | Inl e \<Rightarrow> (Inr data_points, log_warning ''Failed to parse AQI: '' e st))
          else (Inr data_points, st))"

subsection \<open>The template parameters\<close>

record template_params =
  current_date :: string
  location :: string
  current_temperature :: string
  feels_like :: string
  temperature_unit :: string
  units :: string
  current_day_icon :: string
  forecast :: "forecast_entry list"
  hourly_forecast :: "hourly_entry list"
  data_points :: "data_point list"

text \<open>The two literals outside ASCII, in UTF-8: an en dash, and a degree sign before C.\<close>

definition en_dash :: string where
  "en_dash = [CHR 0xE2, CHR 0x80, CHR 0x93]"

definition degrees_celsius :: string where
  "degrees_celsius = [CHR 0xC2, CHR 0xB0, CHR ''C'']"

text \<open>What \<^verbatim>\<open>parse_weather_data\<close> evaluates before it calls \<^verbatim>\<open>parse_data_points\<close>; the
  last field is filled by that call.\<close>

definition weather_fields :: "pylib \<Rightarrow> pyval \<Rightarrow> tzinfo \<Rightarrow> pyerror + (pyval \<times> pyval \<times> template_params)" where
  "weather_fields lib data tz =
     bind (getitem_key data ''current'') (\<lambda>current.
     bind (getitem_key data ''daily'') (\<lambda>daily.
     bind (getitem_key current ''time'') (\<lambda>t.
     bind (localtime lib tz t) (\<lambda>dt.
     bind (item daily ''weathercode'' 0) (\<lambda>code.
     bind (icon_for code) (\<lambda>icon_code.
     bind (getitem_key data ''latitude'') (\<lambda>lat.
     bind (format_2f lat) (\<lambda>lat_text.
     bind (getitem_key data ''longitude'') (\<lambda>long.
     bind (format_2f long) (\<lambda>long_text.
     bind (getitem_key current ''temperature_2m'') (\<lambda>temp.
     bind (py_round temp) (\<lambda>rounded.
     bind (parse_forecast lib daily tz) (\<lambda>fc.
     bind (getitem_key data ''hourly'') (\<lambda>hourly.
     bind (parse_hourly lib hourly tz) (\<lambda>hl.
       Inr (current, daily,
            \<lparr>current_date = strftime_A_B_d dt,
             location = lat_text @ '', '' @ long_text,
             current_temperature = show_int rounded,
             feels_like = en_dash,
             temperature_unit = degrees_celsius,
             units = ''metric'',
             current_day_icon = icon_path lib icon_code,
             forecast = fc,
             hourly_forecast = hl,
             data_points = []\<rparr>))))))))))))))))"

definition parse_weather_data ::
  "pylib \<Rightarrow> pyval \<Rightarrow> pyval \<Rightarrow> tzinfo \<Rightarrow> state \<Rightarrow> (pyerror + template_params) \<times> state" where
  "parse_weather_data lib data air_quality tz st =
     (case weather_fields lib data tz of
        Inl e \<Rightarrow> (Inl e, st)
      | Inr (current, daily, params) \<Rightarrow>
          (case parse_data_points lib current daily tz air_quality st of
             (Inl e, st') \<Rightarrow> (Inl e, st')
           | (Inr dps, st') \<Rightarrow> (Inr (params\<lparr>data_points := dps\<rparr>), st')))"

subsection \<open>Fetching\<close>

text \<open>
  A response of \<^verbatim>\<open>requests.get\<close>: the flag \<^verbatim>\<open>ok\<close>, the body, and what \<^verbatim>\<open>json()\<close>
  gives for the body (the decoded value, or the exception it raises). The network, the
  rendering of a value inside a URL by \<^verbatim>\<open>str.format\<close>, \<^verbatim>\<open>pytz.timezone\<close> and
  \<^verbatim>\<open>BasePlugin.render_image\<close> are parameters of the model.
\<close>

record response =
  ok :: bool
  content :: string
  json :: "pyerror + pyval"

type_synonym settings = "string \<Rightarrow> pyval option"

record 'img world =
  requests_get :: "string \<Rightarrow> pyerror + response"
  format_field :: "pyval \<Rightarrow> string"
  pytz_timezone :: "pyval \<Rightarrow> pyerror + tzinfo"
  render_image :: "nat \<times> nat \<Rightarrow> string \<Rightarrow> string \<Rightarrow> template_params \<Rightarrow> settings \<Rightarrow> pyerror + 'img option"

definition OPEN_METEO_URL :: "string \<Rightarrow> string \<Rightarrow> string" where
  "OPEN_METEO_URL lat long =
     ''https://api.open-meteo.com/v1/forecast?'' @
     ''latitude='' @ lat @ ''&longitude='' @ long @
     ''&current=temperature_2m,relative_humidity_2m,precipitation,rain,wind_speed_10m,'' @
     ''wind_direction_10m,pressure_msl'' @
     ''&daily=temperature_2m_max,temperature_2m_min,sunrise,sunset,weathercode,uv_index_max'' @
     ''&hourly=temperature_2m,rain'' @
     ''&timezone=auto''"

definition AIR_QUALITY_URL :: "string \<Rightarrow> string \<Rightarrow> string" where
  "AIR_QUALITY_URL lat long =
     ''https://air-quality-api.open-meteo.com/v1/air-quality?'' @
     ''latitude='' @ lat @ ''&longitude='' @ long @ ''&hourly=european_aqi&timezone=auto''"

text \<open>\<^verbatim>\<open>requests.get(url)\<close>: the request is issued, then the answer or the exception comes back.\<close>

definition http_get :: "'img world \<Rightarrow> string \<Rightarrow> state \<Rightarrow> (pyerror + response) \<times> state" where
  "http_get w url st = (requests_get w url, st\<lparr>requested := requested st @ [url]\<rparr>)"

definition get_weather_data :: "'img world \<Rightarrow> pyval \<Rightarrow> pyval \<Rightarrow> state \<Rightarrow> (pyerror + pyval) \<times> state" where
  "get_weather_data w lat long st =
     (case http_get w (OPEN_METEO_URL (format_field w lat) (format_field w long)) st of
        (Inl e, st') \<Rightarrow> (Inl e, st')
      | (Inr response, st') \<Rightarrow>
          if \<not> ok response
          then (Inl (RuntimeError ''Failed to fetch weather data.''),
                log_error ''Failed to fetch weather data: '' (content response) st')
          else (json response, st'))"

definition get_air_quality :: "'img world \<Rightarrow> pyval \<Rightarrow> pyval \<Rightarrow> state \<Rightarrow> (pyerror + pyval) \<times> state" where
  "get_air_quality w lat long st =
     (case http_get w (AIR_QUALITY_URL (format_field w lat) (format_field w long)) st of
        (Inl e, st') \<Rightarrow> (Inl e, st')
      | (Inr response, st') \<Rightarrow>
          if \<not> ok response
          then (Inr PNone, log_error ''Failed to fetch air quality data: '' (content response) st')
          else (json response, st'))"

subsection \<open>Rendering\<close>

text \<open>The device configuration: the resolution, and the stored values by key.\<close>

record device_config =
  get_resolution :: "nat \<times> nat"
  get_config :: "string \<Rightarrow> pyval option"

text \<open>\<^verbatim>\<open>settings.get(key)\<close>\<close>

definition settings_get :: "settings \<Rightarrow> string \<Rightarrow> pyval" where
  "settings_get settings key = (case settings key of None \<Rightarrow> PNone | Some v \<Rightarrow> v)"

text \<open>\<^verbatim>\<open>weather_data.get("timezone", default)\<close>: only a dictionary has the method.\<close>

fun dict_get :: "pyval \<Rightarrow> string \<Rightarrow> pyval \<Rightarrow> pyerror + pyval" where
  "dict_get (PDict kvs) k dflt = (case map_of kvs k of None \<Rightarrow> Inr dflt | Some v \<Rightarrow> Inr v)"
| "dict_get _ k dflt = Inl AttributeError"

definition generate_image ::
  "pylib \<Rightarrow> 'img world \<Rightarrow> settings \<Rightarrow> device_config \<Rightarrow> state \<Rightarrow> (pyerror + 'img) \<times> state" where
  "generate_image lib w settings config st =
     (let lat = settings_get settings ''latitude'';
          long = settings_get settings ''longitude''
      in if \<not> truthy lat \<or> \<not> truthy long
         then (Inl (RuntimeError ''Latitude and Longitude are required.''), st)
         else
           (case get_weather_data w lat long st of
              (Inl e, st1) \<Rightarrow> (Inl e, st1)
            | (Inr weather_data, st1) \<Rightarrow>
           (case get_air_quality w lat long st1 of
              (Inl e, st2) \<Rightarrow> (Inl e, st2)
            | (Inr air_quality_data, st2) \<Rightarrow>
           (let dimensions = get_resolution config;
                dimensions = (if get_config config ''orientation'' = Some (PStr ''vertical'')
                              then (snd dimensions, fst dimensions) else dimensions);
                fallback = (case get_config config ''timezone'' of None \<Rightarrow> PStr ''UTC'' | Some v \<Rightarrow> v)
            in
           (case dict_get weather_data ''timezone'' fallback of
              Inl e \<Rightarrow> (Inl e, st2)
            | Inr timezone_str \<Rightarrow>
           (case pytz_timezone w timezone_str of
              Inl e \<Rightarrow> (Inl e, st2)
            | Inr tz \<Rightarrow>
           (case parse_weather_data lib weather_data air_quality_data tz st2 of
              (Inl e, st3) \<Rightarrow> (Inl e, st3)
            | (Inr template_params, st3) \<Rightarrow>
           (case render_image w dimensions ''weather.html'' ''weather.css'' template_params settings of
              Inl e \<Rightarrow> (Inl e, st3)
            | Inr None \<Rightarrow> (Inl (RuntimeError ''Failed to take screenshot, please check logs.''), st3)
            | Inr (Some img) \<Rightarrow> (Inr img, st3)))))))))"

subsection \<open>Sample inputs\<close>

text \<open>
  Concrete inputs on which the theorems below are exercised: a stand-in for
  \<^verbatim>\<open>fromisoformat\<close> that reads the two layouts the forecast API sends
  (\<^verbatim>\<open>YYYY-MM-DD\<close> and \<^verbatim>\<open>YYYY-MM-DDTHH:MM\<close>) by position, and a forecast response for
  Friday, 5 January 2024.
\<close>

definition example_number :: "string \<Rightarrow> nat" where
  "example_number s = foldl (\<lambda>a c. 10 * a + (of_char c - 48)) 0 s"

definition example_fromisoformat :: "string \<Rightarrow> pyerror + datetime" where
  "example_fromisoformat s =
     (if length s = 16
      then Inr \<lparr>dt_year = example_number (take 4 s), dt_month = example_number (take 2 (drop 5 s)),
                dt_day = example_number (take 2 (drop 8 s)), dt_hour = example_number (take 2 (drop 11 s)),
                dt_minute = example_number (take 2 (drop 14 s))\<rparr>
      else if length s = 10
      then Inr \<lparr>dt_year = example_number (take 4 s), dt_month = example_number (take 2 (drop 5 s)),
                dt_day = example_number (take 2 (drop 8 s)), dt_hour = 0, dt_minute = 0\<rparr>
      else Inl ValueError)"

definition example_lib :: pylib where
  "example_lib = \<lparr>fromisoformat = example_fromisoformat, int_of_str = (\<lambda>s. Inl ValueError),
     get_plugin_dir = (\<lambda>p. ''/plugins/weather_custom/'' @ p)\<rparr>"

definition example_daily :: pyval where
  "example_daily = PDict
     [(''time'', PList (map PStr [''2024-01-05'', ''2024-01-06'', ''2024-01-07'', ''2024-01-08'',
         ''2024-01-09'', ''2024-01-10'', ''2024-01-11''])),
      (''temperature_2m_max'', PList (map PFloat [7 / 2, 9 / 2, - 3 / 2, 0, 25 / 4, 8, 9])),
      (''temperature_2m_min'', PList (map PFloat [- 1 / 2, 3 / 2, - 11 / 2, - 4, 5 / 4, 2, 3])),
      (''sunrise'', PList (map PStr [''2024-01-05T06:05'', ''2024-01-06T06:06'', ''2024-01-07T06:07'',
         ''2024-01-08T06:08'', ''2024-01-09T06:09'', ''2024-01-10T06:10'', ''2024-01-11T06:11''])),
      (''sunset'', PList (map PStr [''2024-01-05T17:40'', ''2024-01-06T17:41'', ''2024-01-07T17:42'',
         ''2024-01-08T17:43'', ''2024-01-09T17:44'', ''2024-01-10T17:45'', ''2024-01-11T17:46''])),
      (''weathercode'', PList (map PInt [61, 3, 71, 100, 95, 0, 45])),
      (''uv_index_max'', PList (map PFloat [5 / 2, 3, 3, 3, 3, 3, 3]))]"

definition example_hourly :: pyval where
  "example_hourly = PDict
     [(''time'', PList (map (\<lambda>h. PStr (''2024-01-05T'' @ pad2 h @ '':00'')) [0..<24])),
      (''temperature_2m'', PList (map (\<lambda>h. PFloat (of_nat h / 2)) [0..<24])),
      (''rain'', PList (map (\<lambda>h. PFloat (of_nat h / 8)) [0..<24]))]"

definition example_current :: pyval where
  "example_current = PDict
     [(''time'', PStr ''2024-01-05T14:30''), (''temperature_2m'', PFloat (5 / 2)),
      (''relative_humidity_2m'', PInt 81), (''precipitation'', PFloat 0), (''rain'', PFloat 0),
      (''wind_speed_10m'', PFloat (25 / 2)), (''wind_direction_10m'', PInt 270),
      (''pressure_msl'', PFloat (20265 / 20))]"

definition example_data :: pyval where
  "example_data = PDict
     [(''latitude'', PFloat (105 / 2)), (''longitude'', PFloat (107 / 8)),
      (''timezone'', PStr ''Europe/Berlin''),
      (''current'', example_current), (''daily'', example_daily), (''hourly'', example_hourly)]"

definition example_air_quality :: pyval where
  "example_air_quality = PDict [(''hourly'', PDict [(''european_aqi'', PList [PInt 45, PInt 47])])]"


definition example_hourly_short :: pyval where
  "example_hourly_short = PDict
     [(''time'', PList (map (\<lambda>h. PStr (''2024-01-05T'' @ pad2 h @ '':00'')) [0..<24])),
      (''temperature_2m'', PList (map (\<lambda>h. PFloat (of_nat h / 2)) [0..<23])),
      (''rain'', PList (map (\<lambda>h. PFloat (of_nat h / 8)) [0..<24]))]"

definition state0 :: state where
  "state0 = \<lparr>requested = [], logged = []\<rparr>"

definition example_format :: "pyval \<Rightarrow> string" where
  "example_format v =
     (case v of PStr s \<Rightarrow> s | PInt n \<Rightarrow> show_int n | PNone \<Rightarrow> ''None''
      | PBool b \<Rightarrow> (if b then ''True'' else ''False'') | _ \<Rightarrow> [])"

definition example_requests_get :: "pyerror + response \<Rightarrow> string \<Rightarrow> pyerror + response" where
  "example_requests_get air url =
     (if url = OPEN_METEO_URL ''52.52'' ''13.41''
      then Inr \<lparr>ok = True, content = [], json = Inr example_data\<rparr>
      else if url = AIR_QUALITY_URL ''52.52'' ''13.41'' then air
      else Inl ConnectionError)"

definition example_world :: "pyerror + response \<Rightarrow> (((nat \<times> nat) \<times> template_params) world)" where
  "example_world air =
     \<lparr>requests_get = example_requests_get air,
      format_field = example_format,
      pytz_timezone = (\<lambda>name. if name = PStr ''Europe/Berlin'' then Inr id else Inl UnknownTimeZoneError),
      render_image = (\<lambda>dimensions html css params settings. Inr (Some (dimensions, params)))\<rparr>"

definition example_config :: device_config where
  "example_config = \<lparr>get_resolution = (800, 480),
     get_config = map_of [(''orientation'', PStr ''horizontal''), (''timezone'', PStr ''UTC'')]\<rparr>"

definition example_settings :: settings where
  "example_settings = map_of [(''latitude'', PStr ''52.52''), (''longitude'', PStr ''13.41'')]"

definition example_settings_zero :: settings where
  "example_settings_zero = map_of [(''latitude'', PInt 0), (''longitude'', PStr ''13.41'')]"

definition example_air_ok :: "pyerror + response" where
  "example_air_ok = Inr \<lparr>ok = True, content = [], json = Inr example_air_quality\<rparr>"

definition example_air_failed :: "pyerror + response" where
  "example_air_failed = Inr \<lparr>ok = False, content = ''Service Unavailable'', json = Inl JSONDecodeError\<rparr>"

definition example_air_undecodable :: "pyerror + response" where
  "example_air_undecodable = Inr \<lparr>ok = True, content = ''<html>'', json = Inl JSONDecodeError\<rparr>"

definition example_world_forecast_down :: "((nat \<times> nat) \<times> template_params) world" where
  "example_world_forecast_down =
     (example_world example_air_ok)
       \<lparr>requests_get := (\<lambda>url. Inr \<lparr>ok = False, content = ''Bad Gateway'', json = Inl JSONDecodeError\<rparr>)\<rparr>"

definition example_air_quality_empty :: pyval where
  "example_air_quality_empty = PDict [(''hourly'', PDict [(''european_aqi'', PList [])])]"

section \<open>Properties\<close>

subsection \<open>Auxiliary facts\<close>

lemma bind_Inr: "bind m f = Inr y \<longleftrightarrow> (\<exists>x. m = Inr x \<and> f x = Inr y)"
  by (cases m) (simp_all add: bind_def)

lemma bind_Inl: "bind m f = Inl e \<longleftrightarrow> m = Inl e \<or> (\<exists>x. m = Inr x \<and> f x = Inl e)"
  by (cases m) (simp_all add: bind_def)

lemma for_range_Inr:
  "for_range body i n acc = Inr r \<Longrightarrow>
     \<exists>xs. r = acc @ xs \<and> length xs = n - i \<and> (\<forall>k<n - i. body (i + k) = Inr (xs ! k))"
proof (induction body i n acc rule: for_range.induct)
  case (1 body i n acc)
  show ?case
  proof (cases "i < n")
    case False
    with "1.prems" show ?thesis by (simp add: for_range.simps)
  next
    case True
    with "1.prems" obtain x where x: "body i = Inr x"
      and rest: "for_range body (Suc i) n (acc @ [x]) = Inr r"
      by (auto simp: for_range.simps [of body i] split: sum.splits)
    from "1.IH" [OF True x rest] obtain ys where ys: "r = (acc @ [x]) @ ys"
      "length ys = n - Suc i" "\<forall>k<n - Suc i. body (Suc i + k) = Inr (ys ! k)"
      by blast
    have "\<forall>k<n - i. body (i + k) = Inr ((x # ys) ! k)"
    proof (intro allI impI)
      fix k assume k: "k < n - i"
      show "body (i + k) = Inr ((x # ys) ! k)"
      proof (cases k)
        case 0 then show ?thesis using x by simp
      next
        case (Suc j)
        with k have "j < n - Suc i" by simp
        with ys(3) Suc show ?thesis by simp
      qed
    qed
    moreover have "length (x # ys) = n - i" using ys(2) True by simp
    moreover have "r = acc @ (x # ys)" using ys(1) by simp
    ultimately show ?thesis by blast
  qed
qed

lemma for_range_total:
  "(\<And>k. i \<le> k \<Longrightarrow> k < n \<Longrightarrow> \<exists>x. body k = Inr x) \<Longrightarrow> \<exists>r. for_range body i n acc = Inr r"
proof (induction body i n acc rule: for_range.induct)
  case (1 body i n acc)
  show ?case
  proof (cases "i < n")
    case False
    then show ?thesis by (simp add: for_range.simps)
  next
    case True
    with "1.prems" obtain x where x: "body i = Inr x" by auto
    have "\<exists>r. for_range body (Suc i) n (acc @ [x]) = Inr r"
      using "1.IH" [OF True x] "1.prems" by simp
    with True x show ?thesis by (simp add: for_range.simps [of body i])
  qed
qed

lemma for_range_fails:
  "i \<le> k \<Longrightarrow> k < n \<Longrightarrow> body k = Inl e \<Longrightarrow> \<exists>e'. for_range body i n acc = Inl e'"
proof (induction body i n acc rule: for_range.induct)
  case (1 body i n acc)
  from "1.prems" have lt: "i < n" by simp
  show ?case
  proof (cases "body i")
    case (Inl e0)
    with lt show ?thesis by (simp add: for_range.simps [of body i])
  next
    case (Inr x)
    with "1.prems" have "i \<noteq> k" by auto
    with "1.prems" have "Suc i \<le> k" by simp
    from "1.IH" [OF lt Inr this "1.prems"(2,3)] lt Inr
    show ?thesis by (simp add: for_range.simps [of body i])
  qed
qed

lemma round_half_even_nearest: "\<bar>of_int (round_half_even q) - q\<bar> \<le> 1 / 2"
proof -
  have lo: "of_int \<lfloor>q\<rfloor> \<le> q" and hi: "q < of_int \<lfloor>q\<rfloor> + 1"
    by linarith+
  consider "q - of_int \<lfloor>q\<rfloor> < 1 / 2" | "1 / 2 < q - of_int \<lfloor>q\<rfloor>" | "q - of_int \<lfloor>q\<rfloor> = 1 / 2"
    by linarith
  then show ?thesis
  proof cases
    case 1
    then have "round_half_even q = \<lfloor>q\<rfloor>" by (simp add: round_half_even_def Let_def)
    with 1 lo show ?thesis by simp
  next
    case 2
    then have "round_half_even q = \<lfloor>q\<rfloor> + 1" by (simp add: round_half_even_def Let_def)
    with 2 hi show ?thesis by simp
  next
    case 3
    then have "round_half_even q = \<lfloor>q\<rfloor> \<or> round_half_even q = \<lfloor>q\<rfloor> + 1"
      by (simp add: round_half_even_def Let_def)
    with 3 show ?thesis by auto
  qed
qed

lemma trunc_zero_towards_zero:
  "\<bar>of_int (trunc_zero q)\<bar> \<le> \<bar>q\<bar> \<and> \<bar>q - of_int (trunc_zero q)\<bar> < 1"
proof (cases "0 \<le> q")
  case True
  have "of_int \<lfloor>q\<rfloor> \<le> q" "q < of_int \<lfloor>q\<rfloor> + 1" by linarith+
  moreover from True have "0 \<le> \<lfloor>q\<rfloor>" by simp
  ultimately show ?thesis using True by (simp add: trunc_zero_def)
next
  case False
  have "q \<le> of_int \<lceil>q\<rceil>" "of_int \<lceil>q\<rceil> < q + 1" by linarith+
  moreover from False have "\<lceil>q\<rceil> \<le> 0" by (simp add: ceiling_le_iff)
  ultimately show ?thesis using False by (simp add: trunc_zero_def)
qed


lemma digit_char_zero: "d < 10 \<Longrightarrow> digit_char d = CHR ''0'' \<longleftrightarrow> d = 0"
proof -
  assume "d < 10"
  then have "d \<in> {0, 1, 2, 3, 4, 5, 6, 7, 8, 9}" by auto
  then show ?thesis by (auto simp: digit_char_def)
qed

lemma show_nat_nonempty: "show_nat n \<noteq> []"
  by (subst show_nat.simps) simp

lemma show_nat_hd: "0 < n \<Longrightarrow> hd (show_nat n) \<noteq> CHR ''0''"
proof (induction n rule: show_nat.induct)
  case (1 n)
  show ?case
  proof (cases "n < 10")
    case True
    with "1.prems" show ?thesis
      by (subst show_nat.simps) (simp add: digit_char_zero)
  next
    case False
    then have "0 < n div 10" by (simp add: div_greater_zero_iff)
    with "1.IH" False have "hd (show_nat (n div 10)) \<noteq> CHR ''0''" by simp
    with False show ?thesis
      by (subst show_nat.simps) (simp add: show_nat_nonempty)
  qed
qed

lemma hour12_range: "1 \<le> hour12 d \<and> hour12 d \<le> 12"
proof -
  have "dt_hour d mod 12 < 12" by simp
  then show ?thesis unfolding hour12_def by (auto simp del: mod_less_divisor)
qed

lemma py_round_nearest:
  "py_round v = Inr z \<Longrightarrow> \<exists>q. number v = Some q \<and> \<bar>of_int z - q\<bar> \<le> 1 / 2"
proof (cases v)
  case (PFloat x)
  assume "py_round v = Inr z"
  with PFloat have "z = round_half_even x" by simp
  with PFloat round_half_even_nearest [of x] show ?thesis by simp
qed auto

lemma py_round_total: "number v = Some q \<Longrightarrow> \<exists>z. py_round v = Inr z"
  by (cases v) auto

lemma hourly_hour_Inr:
  "hourly_hour lib hourly tz i = Inr e \<longleftrightarrow>
     (\<exists>t dt temp rounded rain.
        item hourly ''time'' i = Inr t \<and> localtime lib tz t = Inr dt \<and>
        item hourly ''temperature_2m'' i = Inr temp \<and> py_round temp = Inr rounded \<and>
        item hourly ''rain'' i = Inr rain \<and>
        e = \<lparr>h_time = strftime_I_p dt, h_temperature = rounded, h_precipitiation = rain\<rparr>)"
  unfolding hourly_hour_def bind_Inr by auto

lemma localtime_Inr:
  "localtime lib tz v = Inr dt \<longleftrightarrow> (\<exists>s d. v = PStr s \<and> fromisoformat lib s = Inr d \<and> dt = tz d)"
  by (cases v) (auto simp: bind_Inr)

lemma item_short:
  "getitem_key x k = Inr (PList xs) \<Longrightarrow> length xs \<le> i \<Longrightarrow> item x k i = Inl IndexError"
  by (simp add: item_def bind_def)

lemma length_pad2: "n < 100 \<Longrightarrow> length (pad2 n) = 2"
proof (cases "n < 10")
  case True
  then show ?thesis by (simp add: pad2_def show_nat.simps [of n])
next
  case False
  assume "n < 100"
  then have "n div 10 < 10" by simp
  with False show ?thesis
    by (simp add: pad2_def show_nat.simps [of n] show_nat.simps [of "n div 10"])
qed

lemma weekday_less: "weekday d < 7"
  by (simp add: weekday_def)

lemma py_int_total: "number v = Some q \<Longrightarrow> \<exists>z. py_int lib v = Inr z"
  by (cases v) auto

lemma forecast_day_Inr:
  "forecast_day lib daily tz i = Inr e \<longleftrightarrow>
     (\<exists>t dt code icon hi high lo low.
        item daily ''time'' i = Inr t \<and> localtime lib tz t = Inr dt \<and>
        item daily ''weathercode'' i = Inr code \<and> icon_for code = Inr icon \<and>
        item daily ''temperature_2m_max'' i = Inr hi \<and> py_int lib hi = Inr high \<and>
        item daily ''temperature_2m_min'' i = Inr lo \<and> py_int lib lo = Inr low \<and>
        e = \<lparr>fc_day = strftime_a dt, fc_high = high, fc_low = low, fc_icon = icon_path lib icon\<rparr>)"
  unfolding forecast_day_def bind_Inr by auto

lemma parse_forecast_Inr:
  "parse_forecast lib daily tz = Inr fc \<longleftrightarrow>
     (\<exists>times N. getitem_key daily ''time'' = Inr times \<and> py_len times = Inr N \<and>
        for_range (forecast_day lib daily tz) 1 (min N 6) [] = Inr fc)"
  unfolding parse_forecast_def bind_Inr by simp

lemma parse_forecast_total:
  assumes "\<exists>times N. getitem_key daily ''time'' = Inr times \<and> py_len times = Inr N \<and>
          (\<forall>i. 1 \<le> i \<and> i < min N 6 \<longrightarrow>
             (\<exists>s d code icon hi qh lo ql.
                item daily ''time'' i = Inr (PStr s) \<and> fromisoformat lib s = Inr d \<and>
                item daily ''weathercode'' i = Inr code \<and> icon_for code = Inr icon \<and>
                item daily ''temperature_2m_max'' i = Inr hi \<and> number hi = Some qh \<and>
                item daily ''temperature_2m_min'' i = Inr lo \<and> number lo = Some ql))"
  shows "\<exists>fc. parse_forecast lib daily tz = Inr fc"
proof -
  from assms obtain times N where times: "getitem_key daily ''time'' = Inr times" "py_len times = Inr N"
    and wf: "\<forall>i. 1 \<le> i \<and> i < min N 6 \<longrightarrow>
             (\<exists>s d code icon hi qh lo ql.
                item daily ''time'' i = Inr (PStr s) \<and> fromisoformat lib s = Inr d \<and>
                item daily ''weathercode'' i = Inr code \<and> icon_for code = Inr icon \<and>
                item daily ''temperature_2m_max'' i = Inr hi \<and> number hi = Some qh \<and>
                item daily ''temperature_2m_min'' i = Inr lo \<and> number lo = Some ql)"
    by blast
  have "\<exists>x. forecast_day lib daily tz k = Inr x" if "1 \<le> k" "k < min N 6" for k
  proof -
    from wf that obtain s d code icon hi qh lo ql where
      *: "item daily ''time'' k = Inr (PStr s)" "fromisoformat lib s = Inr d"
         "item daily ''weathercode'' k = Inr code" "icon_for code = Inr icon"
         "item daily ''temperature_2m_max'' k = Inr hi" "number hi = Some qh"
         "item daily ''temperature_2m_min'' k = Inr lo" "number lo = Some ql"
      by blast
    from py_int_total [OF *(6)] obtain high where high: "py_int lib hi = Inr high" ..
    from py_int_total [OF *(8)] obtain low where low: "py_int lib lo = Inr low" ..
    from * high low show ?thesis
      unfolding forecast_day_Inr localtime_Inr by blast
  qed
  then have "\<exists>fc. for_range (forecast_day lib daily tz) 1 (min N 6) [] = Inr fc"
    by (intro for_range_total) simp
  with times show "\<exists>fc. parse_forecast lib daily tz = Inr fc"
    unfolding parse_forecast_Inr by blast
qed

lemma parse_hourly_total:
  assumes wf: "\<forall>i<24. \<exists>s d temp q rain.
          item hourly ''time'' i = Inr (PStr s) \<and> fromisoformat lib s = Inr d \<and>
          item hourly ''temperature_2m'' i = Inr temp \<and> number temp = Some q \<and>
          item hourly ''rain'' i = Inr rain"
  shows "\<exists>hl. parse_hourly lib hourly tz = Inr hl"
proof -
  have "\<exists>x. hourly_hour lib hourly tz k = Inr x" if "k < 24" for k
  proof -
    from wf that obtain s d temp q rain where
      *: "item hourly ''time'' k = Inr (PStr s)" "fromisoformat lib s = Inr d"
         "item hourly ''temperature_2m'' k = Inr temp" "number temp = Some q"
         "item hourly ''rain'' k = Inr rain"
      by blast
    from py_round_total [OF *(4)] obtain z where "py_round temp = Inr z" ..
    with * show ?thesis
      unfolding hourly_hour_Inr localtime_Inr by blast
  qed
  then show "\<exists>hl. parse_hourly lib hourly tz = Inr hl"
    unfolding parse_hourly_def by (intro for_range_total) simp
qed

lemma example_hourly_wellformed:
  "\<forall>i<24. \<exists>s d temp q rain.
          item example_hourly ''time'' i = Inr (PStr s) \<and> fromisoformat example_lib s = Inr d \<and>
          item example_hourly ''temperature_2m'' i = Inr temp \<and> number temp = Some q \<and>
          item example_hourly ''rain'' i = Inr rain"
proof (intro allI impI)
  fix i :: nat assume i: "i < 24"
  then have "length (''2024-01-05T'' @ pad2 i @ '':00'') = 16" by (simp add: length_pad2)
  then have "\<exists>d. fromisoformat example_lib (''2024-01-05T'' @ pad2 i @ '':00'') = Inr d"
    by (simp add: example_lib_def example_fromisoformat_def)
  moreover have "number (PFloat (of_nat i / 2)) = Some (of_nat i / 2)" by simp
  moreover have "item example_hourly ''time'' i = Inr (PStr (''2024-01-05T'' @ pad2 i @ '':00''))"
    "item example_hourly ''temperature_2m'' i = Inr (PFloat (of_nat i / 2))"
    "item example_hourly ''rain'' i = Inr (PFloat (of_nat i / 8))"
    using i by (simp_all add: example_hourly_def item_def bind_def)
  ultimately show "\<exists>s d temp q rain.
        item example_hourly ''time'' i = Inr (PStr s) \<and> fromisoformat example_lib s = Inr d \<and>
        item example_hourly ''temperature_2m'' i = Inr temp \<and> number temp = Some q \<and>
        item example_hourly ''rain'' i = Inr rain"
    by blast
qed


lemma example_daily_wellformed:
  "\<exists>times N. getitem_key example_daily ''time'' = Inr times \<and> py_len times = Inr N \<and>
          (\<forall>i. 1 \<le> i \<and> i < min N 6 \<longrightarrow>
             (\<exists>s d code icon hi qh lo ql.
                item example_daily ''time'' i = Inr (PStr s) \<and> fromisoformat example_lib s = Inr d \<and>
                item example_daily ''weathercode'' i = Inr code \<and> icon_for code = Inr icon \<and>
                item example_daily ''temperature_2m_max'' i = Inr hi \<and> number hi = Some qh \<and>
                item example_daily ''temperature_2m_min'' i = Inr lo \<and> number lo = Some ql))"
proof -
  have times: "getitem_key example_daily ''time'' =
      Inr (PList (map PStr [''2024-01-05'', ''2024-01-06'', ''2024-01-07'', ''2024-01-08'',
         ''2024-01-09'', ''2024-01-10'', ''2024-01-11'']))"
    by (simp add: example_daily_def)
  have n: "py_len (PList (map PStr [''2024-01-05'', ''2024-01-06'', ''2024-01-07'', ''2024-01-08'',
         ''2024-01-09'', ''2024-01-10'', ''2024-01-11''])) = Inr 7"
    by simp
  have wf: "\<forall>i. 1 \<le> i \<and> i < min 7 6 \<longrightarrow>
             (\<exists>s d code icon hi qh lo ql.
                item example_daily ''time'' i = Inr (PStr s) \<and> fromisoformat example_lib s = Inr d \<and>
                item example_daily ''weathercode'' i = Inr code \<and> icon_for code = Inr icon \<and>
                item example_daily ''temperature_2m_max'' i = Inr hi \<and> number hi = Some qh \<and>
                item example_daily ''temperature_2m_min'' i = Inr lo \<and> number lo = Some ql)"
  proof (intro allI impI)
    fix i :: nat assume "1 \<le> i \<and> i < min 7 6"
    then have "i = 1 \<or> i = 2 \<or> i = 3 \<or> i = 4 \<or> i = 5" by auto
    moreover have "\<And>x. \<exists>q. number (PFloat x) = Some q" by simp
    ultimately show "\<exists>s d code icon hi qh lo ql.
                item example_daily ''time'' i = Inr (PStr s) \<and> fromisoformat example_lib s = Inr d \<and>
                item example_daily ''weathercode'' i = Inr code \<and> icon_for code = Inr icon \<and>
                item example_daily ''temperature_2m_max'' i = Inr hi \<and> number hi = Some qh \<and>
                item example_daily ''temperature_2m_min'' i = Inr lo \<and> number lo = Some ql"
      by (elim disjE)
         (simp_all add: example_daily_def item_def bind_def example_lib_def
            example_fromisoformat_def icon_for_def WEATHER_CODE_ICONS_def del: number.simps)
  qed
  show ?thesis
    apply (rule exI [of _ "PList (map PStr [''2024-01-05'', ''2024-01-06'', ''2024-01-07'', ''2024-01-08'',
         ''2024-01-09'', ''2024-01-10'', ''2024-01-11''])"])
    apply (rule exI [of _ 7])
    apply (intro conjI)
      apply (rule times)
     apply (rule n)
    apply (rule wf)
    done
qed

lemma weather_fields_Inr:
  "weather_fields lib data tz = Inr (current, daily, params) \<longleftrightarrow>
     (\<exists>t dt code icon_code lat lat_text long long_text temp rounded fc hourly hl.
        getitem_key data ''current'' = Inr current \<and> getitem_key data ''daily'' = Inr daily \<and>
        getitem_key current ''time'' = Inr t \<and> localtime lib tz t = Inr dt \<and>
        item daily ''weathercode'' 0 = Inr code \<and> icon_for code = Inr icon_code \<and>
        getitem_key data ''latitude'' = Inr lat \<and> format_2f lat = Inr lat_text \<and>
        getitem_key data ''longitude'' = Inr long \<and> format_2f long = Inr long_text \<and>
        getitem_key current ''temperature_2m'' = Inr temp \<and> py_round temp = Inr rounded \<and>
        parse_forecast lib daily tz = Inr fc \<and>
        getitem_key data ''hourly'' = Inr hourly \<and> parse_hourly lib hourly tz = Inr hl \<and>
        params = \<lparr>current_date = strftime_A_B_d dt,
             location = lat_text @ '', '' @ long_text,
             current_temperature = show_int rounded,
             feels_like = en_dash,
             temperature_unit = degrees_celsius,
             units = ''metric'',
             current_day_icon = icon_path lib icon_code,
             forecast = fc,
             hourly_forecast = hl,
             data_points = []\<rparr>)"
  unfolding weather_fields_def bind_Inr by auto

lemma parse_weather_data_Inr:
  "parse_weather_data lib data air_quality tz st = (Inr p, st') \<longleftrightarrow>
     (\<exists>current daily params dps.
        weather_fields lib data tz = Inr (current, daily, params) \<and>
        parse_data_points lib current daily tz air_quality st = (Inr dps, st') \<and>
        p = params\<lparr>data_points := dps\<rparr>)"
  unfolding parse_weather_data_def
  by (auto split: sum.splits prod.splits)

lemma base_data_points_Inr:
  "base_data_points lib current daily tz = Inr dps \<longleftrightarrow>
     (\<exists>sunrise sunrise_dt sunset sunset_dt wind wind_rounded humidity pressure uv rain.
        item daily ''sunrise'' 0 = Inr sunrise \<and> localtime lib tz sunrise = Inr sunrise_dt \<and>
        item daily ''sunset'' 0 = Inr sunset \<and> localtime lib tz sunset = Inr sunset_dt \<and>
        getitem_key current ''wind_speed_10m'' = Inr wind \<and> py_round wind = Inr wind_rounded \<and>
        getitem_key current ''relative_humidity_2m'' = Inr humidity \<and>
        getitem_key current ''pressure_msl'' = Inr pressure \<and>
        item daily ''uv_index_max'' 0 = Inr uv \<and>
        getitem_key current ''rain'' = Inr rain \<and>
        dps = [\<lparr>dp_label = ''Sunrise'', dp_measurement = PStr (lstrip0 (strftime_I_M sunrise_dt)),
              dp_unit = strftime_p sunrise_dt, dp_icon = get_plugin_dir lib ''icons/sunrise.png''\<rparr>,
            \<lparr>dp_label = ''Sunset'', dp_measurement = PStr (lstrip0 (strftime_I_M sunset_dt)),
              dp_unit = strftime_p sunset_dt, dp_icon = get_plugin_dir lib ''icons/sunset.png''\<rparr>,
            \<lparr>dp_label = ''Wind'', dp_measurement = PInt wind_rounded,
              dp_unit = ''km/h'', dp_icon = get_plugin_dir lib ''icons/wind.png''\<rparr>,
            \<lparr>dp_label = ''Humidity'', dp_measurement = humidity,
              dp_unit = ''%'', dp_icon = get_plugin_dir lib ''icons/humidity.png''\<rparr>,
            \<lparr>dp_label = ''Pressure'', dp_measurement = pressure,
              dp_unit = ''hPa'', dp_icon = get_plugin_dir lib ''icons/pressure.png''\<rparr>,
            \<lparr>dp_label = ''UV Index'', dp_measurement = uv,
              dp_unit = [], dp_icon = get_plugin_dir lib ''icons/uvi.png''\<rparr>,
            \<lparr>dp_label = ''Rain'', dp_measurement = rain,
              dp_unit = ''mm'', dp_icon = get_plugin_dir lib ''icons/rain.png''\<rparr>])"
  unfolding base_data_points_def bind_Inr by auto

lemma parse_data_points_Inr:
  "parse_data_points lib current daily tz air_quality st = (Inr dps, st') \<longleftrightarrow>
     (\<exists>base. base_data_points lib current daily tz = Inr base \<and>
        (if truthy air_quality
         then (case aqi_data_point lib air_quality of
                 Inr p \<Rightarrow> dps = base @ [p] \<and> st' = st
               | Inl e \<Rightarrow> dps = base \<and> st' = log_warning ''Failed to parse AQI: '' e st)
         else dps = base \<and> st' = st))"
  unfolding parse_data_points_def
  by (auto split: sum.splits)

lemma lstrip0_hour: "0 < h \<Longrightarrow> lstrip0 (pad2 h @ s) = show_nat h @ s"
proof -
  assume "0 < h"
  then have hd: "hd (show_nat h) \<noteq> CHR ''0''" by (rule show_nat_hd)
  obtain c cs where cs: "show_nat h = c # cs"
    using show_nat_nonempty [of h] by (cases "show_nat h") auto
  with hd have "c \<noteq> CHR ''0''" by simp
  with cs show ?thesis by (simp add: lstrip0_def pad2_def)
qed

lemma pad2_digits: "n < 100 \<Longrightarrow> pad2 n = [digit_char (n div 10), digit_char (n mod 10)]"
proof (cases "n < 10")
  case True
  then show ?thesis by (simp add: pad2_def show_nat.simps [of n] digit_char_def)
next
  case False
  assume "n < 100"
  then have "n div 10 < 10" by simp
  with False show ?thesis
    by (simp add: pad2_def show_nat.simps [of n] show_nat.simps [of "n div 10"])
qed

lemma example_weather_fields:
  "\<exists>params. weather_fields example_lib example_data id = Inr (example_current, example_daily, params)"
proof -
  from parse_forecast_total [OF example_daily_wellformed]
  obtain fc where fc: "parse_forecast example_lib example_daily id = Inr fc" ..
  from parse_hourly_total [OF example_hourly_wellformed]
  obtain hl where hl: "parse_hourly example_lib example_hourly id = Inr hl" ..
  have d: "getitem_key example_data ''current'' = Inr example_current"
    "getitem_key example_data ''daily'' = Inr example_daily"
    "getitem_key example_data ''hourly'' = Inr example_hourly"
    "getitem_key example_data ''latitude'' = Inr (PFloat (105 / 2))"
    "getitem_key example_data ''longitude'' = Inr (PFloat (107 / 8))"
    by (simp_all add: example_data_def)
  have c: "getitem_key example_current ''time'' = Inr (PStr ''2024-01-05T14:30'')"
    "getitem_key example_current ''temperature_2m'' = Inr (PFloat (5 / 2))"
    by (simp_all add: example_current_def)
  have t: "\<exists>dt. localtime example_lib id (PStr ''2024-01-05T14:30'') = Inr dt"
    by (simp add: example_lib_def example_fromisoformat_def bind_def)
  have w: "item example_daily ''weathercode'' 0 = Inr (PInt 61)"
    by (simp add: example_daily_def item_def bind_def)
  have i: "icon_for (PInt 61) = Inr ''10d''"
    by (simp add: icon_for_def bind_def WEATHER_CODE_ICONS_def)
  from t obtain dt where dt: "localtime example_lib id (PStr ''2024-01-05T14:30'') = Inr dt" ..
  show ?thesis
    unfolding weather_fields_Inr
    using fc hl d c dt w i by simp
qed

lemma parse_data_points_total:
  "base_data_points lib current daily tz = Inr base \<Longrightarrow>
     \<exists>dps st'. parse_data_points lib current daily tz air_quality st = (Inr dps, st')"
  by (simp add: parse_data_points_def split: sum.splits)

lemma example_base_data_points:
  "\<exists>base. base_data_points example_lib example_current example_daily id = Inr base"
proof -
  have "item example_daily ''sunrise'' 0 = Inr (PStr ''2024-01-05T06:05'')"
    "item example_daily ''sunset'' 0 = Inr (PStr ''2024-01-05T17:40'')"
    "item example_daily ''uv_index_max'' 0 = Inr (PFloat (5 / 2))"
    by (simp_all add: example_daily_def item_def bind_def)
  moreover have "\<exists>dt. localtime example_lib id (PStr ''2024-01-05T06:05'') = Inr dt"
    "\<exists>dt. localtime example_lib id (PStr ''2024-01-05T17:40'') = Inr dt"
    by (simp_all add: example_lib_def example_fromisoformat_def bind_def)
  moreover have "getitem_key example_current ''wind_speed_10m'' = Inr (PFloat (25 / 2))"
    "getitem_key example_current ''relative_humidity_2m'' = Inr (PInt 81)"
    "getitem_key example_current ''pressure_msl'' = Inr (PFloat (20265 / 20))"
    "getitem_key example_current ''rain'' = Inr (PFloat 0)"
    by (simp_all add: example_current_def)
  ultimately show ?thesis
    unfolding base_data_points_Inr by (elim exE) simp
qed

lemma example_parse_weather_data:
  "\<exists>p st'. parse_weather_data example_lib example_data air_quality id st = (Inr p, st')"
proof -
  from example_weather_fields obtain params where
    "weather_fields example_lib example_data id = Inr (example_current, example_daily, params)" ..
  moreover from example_base_data_points obtain base where
    "base_data_points example_lib example_current example_daily id = Inr base" ..
  from parse_data_points_total [OF this] obtain dps st' where
    "parse_data_points example_lib example_current example_daily id air_quality st = (Inr dps, st')"
    by blast
  ultimately show ?thesis
    unfolding parse_weather_data_Inr by blast
qed

lemma get_weather_data_Inr:
  "get_weather_data w lat long st = (Inr d, st') \<longleftrightarrow>
     (\<exists>r. requests_get w (OPEN_METEO_URL (format_field w lat) (format_field w long)) = Inr r \<and>
        ok r \<and> json r = Inr d \<and>
        st' = st\<lparr>requested := requested st @ [OPEN_METEO_URL (format_field w lat) (format_field w long)]\<rparr>)"
  unfolding get_weather_data_def http_get_def
  by (auto split: sum.splits)

lemma get_air_quality_Inr:
  "get_air_quality w lat long st = (Inr aq, st') \<longleftrightarrow>
     (\<exists>r. requests_get w (AIR_QUALITY_URL (format_field w lat) (format_field w long)) = Inr r \<and>
        (if ok r
         then json r = Inr aq \<and>
              st' = st\<lparr>requested := requested st @ [AIR_QUALITY_URL (format_field w lat) (format_field w long)]\<rparr>
         else aq = PNone \<and>
              st' = log_error ''Failed to fetch air quality data: '' (content r)
                      (st\<lparr>requested := requested st @ [AIR_QUALITY_URL (format_field w lat) (format_field w long)]\<rparr>)))"
  unfolding get_air_quality_def http_get_def
  by (auto split: sum.splits)

lemma generate_image_Inr:
  "generate_image lib w settings config st = (Inr img, st') \<Longrightarrow>
     \<exists>weather_data st1 air_quality_data st2 timezone_str tz params.
        truthy (settings_get settings ''latitude'') \<and> truthy (settings_get settings ''longitude'') \<and>
        get_weather_data w (settings_get settings ''latitude'') (settings_get settings ''longitude'') st
          = (Inr weather_data, st1) \<and>
        get_air_quality w (settings_get settings ''latitude'') (settings_get settings ''longitude'') st1
          = (Inr air_quality_data, st2) \<and>
        dict_get weather_data ''timezone''
          (case get_config config ''timezone'' of None \<Rightarrow> PStr ''UTC'' | Some v \<Rightarrow> v) = Inr timezone_str \<and>
        pytz_timezone w timezone_str = Inr tz \<and>
        parse_weather_data lib weather_data air_quality_data tz st2 = (Inr params, st') \<and>
        render_image w
          (if get_config config ''orientation'' = Some (PStr ''vertical'')
           then (snd (get_resolution config), fst (get_resolution config)) else get_resolution config)
          ''weather.html'' ''weather.css'' params settings = Inr (Some img)"
  unfolding generate_image_def Let_def
  by (auto split: if_splits prod.splits sum.splits option.splits)

lemma generate_image_falsy:
  "\<not> truthy (settings_get settings ''latitude'') \<or> \<not> truthy (settings_get settings ''longitude'') \<Longrightarrow>
     generate_image lib w settings config st =
       (Inl (RuntimeError ''Latitude and Longitude are required.''), st)"
  unfolding generate_image_def Let_def by auto

lemma parse_data_points_requested:
  "parse_data_points lib current daily tz aq st = (res, st') \<Longrightarrow> requested st' = requested st"
  unfolding parse_data_points_def log_warning_def
  by (auto split: sum.splits if_splits)

lemma parse_weather_data_requested:
  "parse_weather_data lib data aq tz st = (res, st') \<Longrightarrow> requested st' = requested st"
  unfolding parse_weather_data_def
  by (auto split: sum.splits prod.splits dest: parse_data_points_requested)

lemma example_get_weather_data:
  "get_weather_data (example_world air) (PStr ''52.52'') (PStr ''13.41'') st =
     (Inr example_data, st\<lparr>requested := requested st @ [OPEN_METEO_URL ''52.52'' ''13.41'']\<rparr>)"
  by (simp add: get_weather_data_def http_get_def example_world_def example_format_def
        example_requests_get_def)

lemma example_generate_image:
  assumes "get_air_quality (example_world air) (PStr ''52.52'') (PStr ''13.41'')
             (state0\<lparr>requested := requested state0 @ [OPEN_METEO_URL ''52.52'' ''13.41'']\<rparr>) = (Inr aq, st2)"
  shows "\<exists>params st'.
     generate_image example_lib (example_world air) example_settings example_config state0 =
       (Inr ((800, 480), params), st') \<and>
     parse_weather_data example_lib example_data aq id st2 = (Inr params, st')"
proof -
  from example_parse_weather_data [of aq st2] obtain params st' where
    p: "parse_weather_data example_lib example_data aq id st2 = (Inr params, st')" by blast
  have s: "settings_get example_settings ''latitude'' = PStr ''52.52''"
    "settings_get example_settings ''longitude'' = PStr ''13.41''"
    by (simp_all add: settings_get_def example_settings_def)
  have tz: "dict_get example_data ''timezone'' (PStr ''UTC'') = Inr (PStr ''Europe/Berlin'')"
    by (simp add: example_data_def)
  have c: "get_config example_config ''timezone'' = Some (PStr ''UTC'')"
    "get_config example_config ''orientation'' = Some (PStr ''horizontal'')"
    "get_resolution example_config = (800, 480)"
    by (simp_all add: example_config_def)
  have w: "pytz_timezone (example_world air) (PStr ''Europe/Berlin'') = Inr id"
    "render_image (example_world air) (800, 480) ''weather.html'' ''weather.css'' params example_settings
       = Inr (Some ((800, 480), params))"
    by (simp_all add: example_world_def)
  have "generate_image example_lib (example_world air) example_settings example_config state0 =
       (Inr ((800, 480), params), st')"
    unfolding generate_image_def Let_def s
    by (simp add: example_get_weather_data assms tz c w p)
  with p show ?thesis by blast
qed

lemma format_2f_number: "number v = Some q \<Longrightarrow> format_2f v = Inr (fmt_2f q)"
  by (cases v) auto

lemma round_half_even_nonneg: "0 \<le> q \<Longrightarrow> 0 \<le> round_half_even q"
proof -
  assume "0 \<le> q"
  then have "0 \<le> \<lfloor>q\<rfloor>" by simp
  then show ?thesis by (simp add: round_half_even_def Let_def)
qed

lemma fmt_2f_digits:
  "\<exists>n. fmt_2f q = (if q < 0 then ''-'' else []) @ show_nat (n div 100) @ ''.'' @
           [digit_char (n mod 100 div 10), digit_char (n mod 10)] \<and>
       \<bar>of_nat n - \<bar>q\<bar> * 100\<bar> \<le> 1 / 2"
proof -
  define n where "n = nat (round_half_even (\<bar>q\<bar> * 100))"
  have "0 \<le> round_half_even (\<bar>q\<bar> * 100)" by (rule round_half_even_nonneg) simp
  then have "(of_nat n :: rat) = of_int (round_half_even (\<bar>q\<bar> * 100))" by (simp add: n_def)
  with round_half_even_nearest [of "\<bar>q\<bar> * 100"]
  have near: "\<bar>of_nat n - \<bar>q\<bar> * 100\<bar> \<le> 1 / 2" by simp
  have "pad2 (n mod 100) = [digit_char (n mod 100 div 10), digit_char (n mod 100 mod 10)]"
    by (rule pad2_digits) simp
  moreover have "n mod 100 mod 10 = n mod 10" by (simp add: mod_mod_cancel)
  ultimately have "fmt_2f q = (if q < 0 then ''-'' else []) @ show_nat (n div 100) @ ''.'' @
           [digit_char (n mod 100 div 10), digit_char (n mod 10)]"
    by (simp add: fmt_2f_def Let_def n_def)
  with near show ?thesis by blast
qed

lemma get_weather_data_requested:
  "get_weather_data w lat long st = (res, st1) \<Longrightarrow>
     requested st1 = requested st @ [OPEN_METEO_URL (format_field w lat) (format_field w long)]"
  unfolding get_weather_data_def http_get_def log_error_def
  by (auto split: sum.splits if_splits)

lemma get_air_quality_requested:
  "get_air_quality w lat long st = (res, st1) \<Longrightarrow>
     requested st1 = requested st @ [AIR_QUALITY_URL (format_field w lat) (format_field w long)]"
  unfolding get_air_quality_def http_get_def log_error_def
  by (auto split: sum.splits if_splits)

lemma generate_image_weather_failed:
  "truthy (settings_get settings ''latitude'') \<Longrightarrow> truthy (settings_get settings ''longitude'') \<Longrightarrow>
   get_weather_data w (settings_get settings ''latitude'') (settings_get settings ''longitude'') st = (Inl e, st1) \<Longrightarrow>
     generate_image lib w settings config st = (Inl e, st1)"
  unfolding generate_image_def Let_def by simp

lemma generate_image_requested:
  assumes "truthy (settings_get settings ''latitude'')" "truthy (settings_get settings ''longitude'')"
    and "get_weather_data w (settings_get settings ''latitude'') (settings_get settings ''longitude'') st
           = (Inr d, st1)"
    and "generate_image lib w settings config st = (res, st')"
  shows "requested st' = requested st @
           [OPEN_METEO_URL (format_field w (settings_get settings ''latitude''))
                           (format_field w (settings_get settings ''longitude'')),
            AIR_QUALITY_URL (format_field w (settings_get settings ''latitude''))
                            (format_field w (settings_get settings ''longitude''))]"
proof -
  obtain r2 st2 where aq:
    "get_air_quality w (settings_get settings ''latitude'') (settings_get settings ''longitude'') st1 = (r2, st2)"
    by (cases "get_air_quality w (settings_get settings ''latitude'') (settings_get settings ''longitude'') st1")
  from get_weather_data_requested [OF assms(3)] get_air_quality_requested [OF aq]
  have st2: "requested st2 = requested st @
           [OPEN_METEO_URL (format_field w (settings_get settings ''latitude''))
                           (format_field w (settings_get settings ''longitude'')),
            AIR_QUALITY_URL (format_field w (settings_get settings ''latitude''))
                            (format_field w (settings_get settings ''longitude''))]"
    by simp
  have "requested st' = requested st2"
    using assms(1,2,4) aq
    by (auto simp: generate_image_def Let_def assms(3)
          split: sum.splits prod.splits option.splits dest: parse_weather_data_requested)
  with st2 show ?thesis by simp
qed

lemma settings_get_absent: "settings key = None \<Longrightarrow> \<not> truthy (settings_get settings key)"
  by (simp add: settings_get_def)

lemma settings_get_present: "settings key = Some v \<Longrightarrow> settings_get settings key = v"
  by (simp add: settings_get_def)

lemma generate_image_total:
  "\<exists>res st'. generate_image lib w settings config st = (res, st')"
  by (cases "generate_image lib w settings config st") simp

lemma get_weather_data_failed:
  "requests_get w (OPEN_METEO_URL (format_field w lat) (format_field w long)) = Inr r \<Longrightarrow> \<not> ok r \<Longrightarrow>
     get_weather_data w lat long st =
       (Inl (RuntimeError ''Failed to fetch weather data.''),
        log_error ''Failed to fetch weather data: '' (content r)
          (st\<lparr>requested := requested st @ [OPEN_METEO_URL (format_field w lat) (format_field w long)]\<rparr>))"
  by (simp add: get_weather_data_def http_get_def)

lemma base_data_points_labels:
  "base_data_points lib current daily tz = Inr base \<Longrightarrow>
     map dp_label base = [''Sunrise'', ''Sunset'', ''Wind'', ''Humidity'', ''Pressure'', ''UV Index'', ''Rain'']"
  unfolding base_data_points_Inr by auto

lemma labels_no_air_quality:
  "map dp_label base = [''Sunrise'', ''Sunset'', ''Wind'', ''Humidity'', ''Pressure'', ''UV Index'', ''Rain'']
     \<Longrightarrow> \<forall>p\<in>set base. dp_label p \<noteq> ''Air Quality''"
proof
  fix p assume l: "map dp_label base = [''Sunrise'', ''Sunset'', ''Wind'', ''Humidity'', ''Pressure'', ''UV Index'', ''Rain'']"
    and p: "p \<in> set base"
  from p have "dp_label p \<in> set (map dp_label base)" by simp
  then have "dp_label p \<in> set [''Sunrise'', ''Sunset'', ''Wind'', ''Humidity'', ''Pressure'', ''UV Index'', ''Rain'']"
    unfolding l .
  then show "dp_label p \<noteq> ''Air Quality''" by auto
qed

lemma get_air_quality_failed:
  "requests_get w (AIR_QUALITY_URL (format_field w lat) (format_field w long)) = Inr r \<Longrightarrow> \<not> ok r \<Longrightarrow>
     get_air_quality w lat long st =
       (Inr PNone,
        log_error ''Failed to fetch air quality data: '' (content r)
          (st\<lparr>requested := requested st @ [AIR_QUALITY_URL (format_field w lat) (format_field w long)]\<rparr>))"
  by (simp add: get_air_quality_def http_get_def)

lemma parse_data_points_raises:
  "(\<exists>e. fst (parse_data_points lib current daily tz aq st) = Inl e) \<longleftrightarrow>
   (\<exists>e. base_data_points lib current daily tz = Inl e)"
  unfolding parse_data_points_def by (auto split: sum.splits)

lemma parse_weather_data_raises:
  "(\<exists>e. fst (parse_weather_data lib data aq tz st) = Inl e) \<longleftrightarrow>
   (\<exists>e. weather_fields lib data tz = Inl e) \<or>
   (\<exists>current daily params e. weather_fields lib data tz = Inr (current, daily, params) \<and>
      base_data_points lib current daily tz = Inl e)"
proof (cases "weather_fields lib data tz")
  case (Inl e)
  then show ?thesis by (simp add: parse_weather_data_def)
next
  case (Inr x)
  obtain current daily params where x: "x = (current, daily, params)" by (cases x)
  obtain r st' where p: "parse_data_points lib current daily tz aq st = (r, st')"
    by (cases "parse_data_points lib current daily tz aq st")
  from parse_data_points_raises [of lib current daily tz aq st] p
  have "(\<exists>e. r = Inl e) \<longleftrightarrow> (\<exists>e. base_data_points lib current daily tz = Inl e)" by simp
  with Inr x p show ?thesis
    by (cases r) (auto simp: parse_weather_data_def)
qed

lemma parse_data_points_none:
  "base_data_points lib current daily tz = Inr base \<Longrightarrow>
     parse_data_points lib current daily tz PNone st = (Inr base, st)"
  by (simp add: parse_data_points_def)

lemma parse_data_points_caught:
  "base_data_points lib current daily tz = Inr base \<Longrightarrow> truthy aq \<Longrightarrow>
   aqi_data_point lib aq = Inl e \<Longrightarrow>
     parse_data_points lib current daily tz aq st =
       (Inr base, log_warning ''Failed to parse AQI: '' e st)"
  by (simp add: parse_data_points_def)

lemma example_air_quality_url:
  "requests_get (example_world air) (AIR_QUALITY_URL ''52.52'' ''13.41'') = air"
  by (simp add: example_world_def example_requests_get_def OPEN_METEO_URL_def AIR_QUALITY_URL_def)

lemma example_settings_get:
  "settings_get example_settings ''latitude'' = PStr ''52.52''"
  "settings_get example_settings ''longitude'' = PStr ''13.41''"
  by (simp_all add: settings_get_def example_settings_def)

lemma example_format_field:
  "format_field (example_world air) (PStr s) = s"
  by (simp add: example_world_def example_format_def)

lemma days_before_next_month:
  "1 \<le> m \<Longrightarrow> m < 12 \<Longrightarrow> days_before_month y (m + 1) = days_before_month y m + days_in_month y m"
proof -
  assume "1 \<le> m" "m < 12"
  then have "m = 1 \<or> m = 2 \<or> m = 3 \<or> m = 4 \<or> m = 5 \<or> m = 6 \<or> m = 7 \<or> m = 8 \<or>
      m = 9 \<or> m = 10 \<or> m = 11" by arith
  then show ?thesis
    by (cases "is_leap y") (auto simp: days_before_month_def days_in_month_def)
qed

lemma days_before_next_year:
  assumes "1 \<le> y"
  shows "days_before_year (y + 1) = days_before_year y + 365 + (if is_leap y then 1 else 0)"
proof -
  from assms obtain n where y: "y = Suc n" by (cases y) auto
  define a b c :: nat where "a = n div 4" and "b = n div 400" and "c = n div 100"
  define e4 e100 e400 l :: nat where "e4 = (if Suc n mod 4 = 0 then 1 else 0)"
    and "e100 = (if Suc n mod 100 = 0 then 1 else 0)"
    and "e400 = (if Suc n mod 400 = 0 then 1 else 0)"
    and "l = (if is_leap (Suc n) then 1 else 0)"
  have d: "Suc n div 4 = a + e4" "Suc n div 100 = c + e100" "Suc n div 400 = b + e400"
    by (simp_all add: div_Suc a_def b_def c_def e4_def e100_def e400_def)
  have le: "c \<le> a" unfolding a_def c_def by (rule div_le_mono2) simp_all
  have m1: "Suc n mod 100 = 0 \<longrightarrow> Suc n mod 4 = 0"
  proof
    assume "Suc n mod 100 = 0"
    then have "100 dvd Suc n" by presburger
    moreover have "(4::nat) dvd 100" by simp
    ultimately have "4 dvd Suc n" by (rule dvd_trans [rotated])
    then show "Suc n mod 4 = 0" by presburger
  qed
  have m2: "Suc n mod 400 = 0 \<longrightarrow> Suc n mod 100 = 0"
  proof
    assume "Suc n mod 400 = 0"
    then have "400 dvd Suc n" by presburger
    moreover have "(100::nat) dvd 400" by simp
    ultimately have "100 dvd Suc n" by (rule dvd_trans [rotated])
    then show "Suc n mod 100 = 0" by presburger
  qed
  from m1 have e: "e100 \<le> e4" by (simp add: e4_def e100_def)
  from m1 m2 have leap: "l + e100 = e4 + e400"
    by (auto simp: l_def e4_def e100_def e400_def is_leap_def)
  have this_year: "days_before_year (Suc n) = n * 365 + a + b - c"
    by (simp add: days_before_year_def a_def b_def c_def)
  have "days_before_year (Suc n + 1) = Suc n * 365 + Suc n div 4 + Suc n div 400 - Suc n div 100"
    by (simp add: days_before_year_def)
  then have next_year: "days_before_year (Suc n + 1) = Suc n * 365 + (a + e4) + (b + e400) - (c + e100)"
    unfolding d .
  have "Suc n * 365 + (a + e4) + (b + e400) - (c + e100) = n * 365 + a + b - c + 365 + l"
    using le e leap by simp
  with this_year next_year show ?thesis
    unfolding y l_def by simp
qed

lemma toordinal_next_day:
  assumes "valid_datetime d"
  shows "toordinal (next_day d) = toordinal d + 1"
proof -
  from assms have v: "1 \<le> dt_year d" "1 \<le> dt_month d" "dt_month d \<le> 12" "1 \<le> dt_day d"
    "dt_day d \<le> days_in_month (dt_year d) (dt_month d)"
    by (simp_all add: valid_datetime_def)
  consider "dt_day d < days_in_month (dt_year d) (dt_month d)"
    | "dt_day d = days_in_month (dt_year d) (dt_month d)" "dt_month d < 12"
    | "dt_day d = days_in_month (dt_year d) (dt_month d)" "dt_month d = 12"
    using v by linarith
  then show ?thesis
  proof cases
    case 1
    then show ?thesis by (simp add: next_day_def toordinal_def)
  next
    case 2
    with v days_before_next_month [of "dt_month d" "dt_year d"] show ?thesis
      by (simp add: next_day_def toordinal_def)
  next
    case 3
    have "days_before_month (dt_year d + 1) 1 = 0" by (simp add: days_before_month_def)
    moreover have "days_before_month (dt_year d) 12 + days_in_month (dt_year d) 12 =
        365 + (if is_leap (dt_year d) then 1 else 0)"
      by (simp add: days_before_month_def days_in_month_def)
    ultimately show ?thesis
      using 3 v days_before_next_year [of "dt_year d"]
      by (simp add: next_day_def toordinal_def)
  qed
qed

lemma weekday_next_day: "valid_datetime d \<Longrightarrow> weekday (next_day d) = (weekday d + 1) mod 7"
  by (simp add: weekday_def toordinal_next_day mod_simps)

lemma weekday_anchor:
  "dt_year d = 2024 \<Longrightarrow> dt_month d = 1 \<Longrightarrow> dt_day d = 1 \<Longrightarrow> weekday d = 0"
  by (simp add: weekday_def toordinal_def days_before_year_def days_before_month_def is_leap_def Let_def)

lemma weekday_formula:
  "weekday d =
     ((dt_year d - 1) * 365 + (dt_year d - 1) div 4 + (dt_year d - 1) div 400 - (dt_year d - 1) div 100
      + [0, 31, 59, 90, 120, 151, 181, 212, 243, 273, 304, 334] ! ((dt_month d - 1) mod 12)
      + (if 2 < dt_month d \<and> dt_year d mod 4 = 0 \<and> (dt_year d mod 100 \<noteq> 0 \<or> dt_year d mod 400 = 0)
         then 1 else 0)
      + dt_day d + 6) mod 7"
  by (simp add: weekday_def toordinal_def days_before_year_def days_before_month_def is_leap_def Let_def)

lemma show_nat_hour12:
  "show_nat (hour12 d) =
     ([''12'', ''1'', ''2'', ''3'', ''4'', ''5''] @ [''6'', ''7'', ''8'', ''9'', ''10'', ''11'']) ! (dt_hour d mod 12)"
proof -
  have "dt_hour d mod 12 < 12" by simp
  then have "dt_hour d mod 12 = 0 \<or> dt_hour d mod 12 = 1 \<or> dt_hour d mod 12 = 2 \<or>
      dt_hour d mod 12 = 3 \<or> dt_hour d mod 12 = 4 \<or> dt_hour d mod 12 = 5 \<or>
      dt_hour d mod 12 = 6 \<or> dt_hour d mod 12 = 7 \<or> dt_hour d mod 12 = 8 \<or>
      dt_hour d mod 12 = 9 \<or> dt_hour d mod 12 = 10 \<or> dt_hour d mod 12 = 11"
    by arith
  then show ?thesis
    by (auto simp: hour12_def show_nat.simps [of 12] show_nat.simps [of 1] show_nat.simps [of "Suc 0"] show_nat.simps [of 2]
          show_nat.simps [of 3] show_nat.simps [of 4] show_nat.simps [of 5] show_nat.simps [of 6]
          show_nat.simps [of 7] show_nat.simps [of 8] show_nat.simps [of 9] show_nat.simps [of 10]
          show_nat.simps [of 11] digit_char_def)
qed

lemma hour12_mod: "hour12 d mod 12 = dt_hour d mod 12"
  by (simp add: hour12_def)

lemma pad2_decimal:
  "n < 100 \<Longrightarrow> pad2 n = [''0123456789'' ! (n div 10), ''0123456789'' ! (n mod 10)]"
proof -
  assume n: "n < 100"
  then have "n div 10 < 10" by simp
  then have "n div 10 mod 10 = n div 10" by simp
  with pad2_digits [OF n] show ?thesis by (simp add: digit_char_def)
qed

lemma round_half_even_tie:
  "q - of_int \<lfloor>q\<rfloor> = 1 / 2 \<Longrightarrow> even (round_half_even q)"
  by (simp add: round_half_even_def Let_def)


lemma strftime_a_names:
  "strftime_a d = [''Mon'', ''Tue'', ''Wed'', ''Thu'', ''Fri'', ''Sat'', ''Sun''] ! weekday d"
proof -
  have "weekday d < 7" by (rule weekday_less)
  then have "weekday d = 0 \<or> weekday d = 1 \<or> weekday d = 2 \<or> weekday d = 3 \<or> weekday d = 4 \<or>
      weekday d = 5 \<or> weekday d = 6" by arith
  then show ?thesis by (auto simp: strftime_a_def day_names_def)
qed

text \<open>
  C1. For every AQI value that is a number (integer, float or boolean),
  \<open>get_aqi_description\<close> classifies with inclusive upper bounds: a value of at most 20 is
  "Good", otherwise at most 40 is "Fair", otherwise at most 60 is "Moderate", otherwise
  at most 80 is "Poor", and every larger value is "Very Poor". In particular 45 is
  "Moderate", exactly 20 is "Good", exactly 80 is "Poor" and 81 is "Very Poor". A value
  that is no number cannot be compared with 20: the first test raises \<^verbatim>\<open>TypeError\<close>.
\<close>

theorem aqi_description_bands:
  "(number aqi = Some q \<longrightarrow>
      get_aqi_description aqi =
        Inr (if q \<le> 20 then ''Good''
             else if q \<le> 40 then ''Fair''
             else if q \<le> 60 then ''Moderate''
             else if q \<le> 80 then ''Poor''
             else ''Very Poor''))
   \<and> (number aqi = None \<longrightarrow> get_aqi_description aqi = Inl TypeError)
   \<and> get_aqi_description (PInt 45) = Inr ''Moderate''
   \<and> get_aqi_description (PInt 20) = Inr ''Good''
   \<and> get_aqi_description (PInt 80) = Inr ''Poor''
   \<and> get_aqi_description (PInt 81) = Inr ''Very Poor''"
  by (simp add: get_aqi_description_def le_int_def bind_def)

theorem aqi_description_bands_witness:
  "number (PFloat (41 / 2)) = Some (41 / 2)
   \<and> get_aqi_description (PFloat (41 / 2)) = Inr ''Fair''
   \<and> number (PStr ''45'') = None
   \<and> get_aqi_description (PStr ''45'') = Inl TypeError"
  using aqi_description_bands [of "PFloat (41 / 2)" "41 / 2"]
    aqi_description_bands [of "PStr ''45''" 0]
  by simp

text \<open>
  C3. When \<open>parse_forecast\<close> returns on a daily series whose \<open>time\<close> entry has \<open>N\<close>
  elements, the list has \<open>min 5 (N - 1)\<close> entries, at most 5, and entry \<open>k\<close> is built from
  daily index \<open>k + 1\<close>: index 0, the current day, is never in it. Each entry carries the
  abbreviated weekday name of the local date, the high and the low temperature as \<open>int\<close>
  gives them, and the icon path of the code looked up in the icon table. It does return
  when every index from 1 up to \<open>min N 6\<close> holds a timestamp that parses, a hashable
  weather code and numeric temperatures.

  What \<open>int\<close> gives: an integer is itself, a Boolean is 0 or 1, a float loses its fraction
  towards zero. The weekday is a function of the date alone: the proleptic Gregorian
  ordinal plus 6, modulo 7. It is Monday (0) on 1 January 2024, and it advances by one,
  modulo 7, from every valid date to the day after it (\<open>next_day\<close>), across the ends of
  months and years.
\<close>

theorem parse_forecast_days:
  "(parse_forecast lib daily tz = Inr fc \<longrightarrow>
      (\<exists>times N. getitem_key daily ''time'' = Inr times \<and> py_len times = Inr N \<and>
         length fc = min 5 (N - 1) \<and> length fc \<le> 5 \<and>
         (\<forall>k<length fc. \<exists>t dt code icon hi lo.
            item daily ''time'' (k + 1) = Inr t \<and> localtime lib tz t = Inr dt \<and>
            fc_day (fc ! k) = [''Mon'', ''Tue'', ''Wed'', ''Thu'', ''Fri'', ''Sat'', ''Sun''] ! weekday dt \<and> weekday dt < 7 \<and>
            item daily ''weathercode'' (k + 1) = Inr code \<and> icon_for code = Inr icon \<and>
            fc_icon (fc ! k) = get_plugin_dir lib (''icons/'' @ icon @ ''.png'') \<and>
            item daily ''temperature_2m_max'' (k + 1) = Inr hi \<and>
            py_int lib hi = Inr (fc_high (fc ! k)) \<and>
            item daily ''temperature_2m_min'' (k + 1) = Inr lo \<and>
            py_int lib lo = Inr (fc_low (fc ! k)))))
   \<and> (py_int lib (PFloat q) = Inr (trunc_zero q) \<and>
        \<bar>of_int (trunc_zero q)\<bar> \<le> \<bar>q\<bar> \<and> \<bar>q - of_int (trunc_zero q)\<bar> < 1 \<and>
        py_int lib (PInt n) = Inr n \<and> py_int lib (PBool b) = Inr (if b then 1 else 0) \<and>
        py_int lib (PStr s) = int_of_str lib s \<and> py_int lib PNone = Inl TypeError)
   \<and> ((\<exists>times N. getitem_key daily ''time'' = Inr times \<and> py_len times = Inr N \<and>
          (\<forall>i. 1 \<le> i \<and> i < min N 6 \<longrightarrow>
             (\<exists>s d code icon hi qh lo ql.
                item daily ''time'' i = Inr (PStr s) \<and> fromisoformat lib s = Inr d \<and>
                item daily ''weathercode'' i = Inr code \<and> icon_for code = Inr icon \<and>
                item daily ''temperature_2m_max'' i = Inr hi \<and> number hi = Some qh \<and>
                item daily ''temperature_2m_min'' i = Inr lo \<and> number lo = Some ql)))
        \<longrightarrow> (\<exists>fc. parse_forecast lib daily tz = Inr fc))
   \<and> icon_for (PInt n) =
        Inr (case map_of WEATHER_CODE_ICONS n of None \<Rightarrow> ''01d'' | Some icon \<Rightarrow> icon)
   \<and> weekday d =
        ((dt_year d - 1) * 365 + (dt_year d - 1) div 4 + (dt_year d - 1) div 400
           - (dt_year d - 1) div 100
         + [0, 31, 59, 90, 120, 151, 181, 212, 243, 273, 304, 334] ! ((dt_month d - 1) mod 12)
         + (if 2 < dt_month d \<and> dt_year d mod 4 = 0 \<and>
               (dt_year d mod 100 \<noteq> 0 \<or> dt_year d mod 400 = 0)
            then 1 else 0)
         + dt_day d + 6) mod 7
   \<and> (dt_year d = 2024 \<and> dt_month d = 1 \<and> dt_day d = 1 \<longrightarrow> weekday d = 0)
   \<and> (valid_datetime d \<longrightarrow> weekday (next_day d) = (weekday d + 1) mod 7)
   \<and> (map_of kvs key = Some (PList xs) \<and> j < length xs \<longrightarrow>
        item (PDict kvs) key j = Inr (xs ! j))
   \<and> (map_of kvs key = Some (PList xs) \<and> length xs \<le> j \<longrightarrow>
        item (PDict kvs) key j = Inl IndexError)
   \<and> (map_of kvs key = None \<longrightarrow> item (PDict kvs) key j = Inl KeyError)
   \<and> (localtime lib tz v = Inr u \<longleftrightarrow>
        (\<exists>s x. v = PStr s \<and> fromisoformat lib s = Inr x \<and> u = tz x))
   \<and> (map_of kvs key = Some v \<longrightarrow> getitem_key (PDict kvs) key = Inr v)
   \<and> py_len (PList xs) = Inr (length xs)"
proof (intro conjI impI)
  assume "parse_forecast lib daily tz = Inr fc"
  then obtain times N where times: "getitem_key daily ''time'' = Inr times" "py_len times = Inr N"
    and loop: "for_range (forecast_day lib daily tz) 1 (min N 6) [] = Inr fc"
    unfolding parse_forecast_Inr by blast
  from for_range_Inr [OF loop]
  have len: "length fc = min N 6 - 1"
    and body: "\<forall>k<min N 6 - 1. forecast_day lib daily tz (1 + k) = Inr (fc ! k)"
    by auto
  have len': "length fc = min 5 (N - 1)" using len by auto
  have entries: "\<exists>t dt code icon hi lo.
            item daily ''time'' (k + 1) = Inr t \<and> localtime lib tz t = Inr dt \<and>
            fc_day (fc ! k) = [''Mon'', ''Tue'', ''Wed'', ''Thu'', ''Fri'', ''Sat'', ''Sun''] ! weekday dt \<and> weekday dt < 7 \<and>
            item daily ''weathercode'' (k + 1) = Inr code \<and> icon_for code = Inr icon \<and>
            fc_icon (fc ! k) = get_plugin_dir lib (''icons/'' @ icon @ ''.png'') \<and>
            item daily ''temperature_2m_max'' (k + 1) = Inr hi \<and>
            py_int lib hi = Inr (fc_high (fc ! k)) \<and>
            item daily ''temperature_2m_min'' (k + 1) = Inr lo \<and>
            py_int lib lo = Inr (fc_low (fc ! k))" if "k < length fc" for k
  proof -
    from that len body have "forecast_day lib daily tz (k + 1) = Inr (fc ! k)" by simp
    then obtain t dt code icon hi high lo low where
      *: "item daily ''time'' (k + 1) = Inr t" "localtime lib tz t = Inr dt"
         "item daily ''weathercode'' (k + 1) = Inr code" "icon_for code = Inr icon"
         "item daily ''temperature_2m_max'' (k + 1) = Inr hi" "py_int lib hi = Inr high"
         "item daily ''temperature_2m_min'' (k + 1) = Inr lo" "py_int lib lo = Inr low" and
      e: "fc ! k = \<lparr>fc_day = strftime_a dt, fc_high = high, fc_low = low, fc_icon = icon_path lib icon\<rparr>"
      unfolding forecast_day_Inr by blast
    show ?thesis
      using * weekday_less [of dt]
      by (intro exI [of _ t] exI [of _ dt] exI [of _ code] exI [of _ icon] exI [of _ hi] exI [of _ lo])
         (simp add: e strftime_a_names icon_path_def)
  qed
  show "\<exists>times N. getitem_key daily ''time'' = Inr times \<and> py_len times = Inr N \<and>
         length fc = min 5 (N - 1) \<and> length fc \<le> 5 \<and>
         (\<forall>k<length fc. \<exists>t dt code icon hi lo.
            item daily ''time'' (k + 1) = Inr t \<and> localtime lib tz t = Inr dt \<and>
            fc_day (fc ! k) = [''Mon'', ''Tue'', ''Wed'', ''Thu'', ''Fri'', ''Sat'', ''Sun''] ! weekday dt \<and> weekday dt < 7 \<and>
            item daily ''weathercode'' (k + 1) = Inr code \<and> icon_for code = Inr icon \<and>
            fc_icon (fc ! k) = get_plugin_dir lib (''icons/'' @ icon @ ''.png'') \<and>
            item daily ''temperature_2m_max'' (k + 1) = Inr hi \<and>
            py_int lib hi = Inr (fc_high (fc ! k)) \<and>
            item daily ''temperature_2m_min'' (k + 1) = Inr lo \<and>
            py_int lib lo = Inr (fc_low (fc ! k)))"
    using times len' entries
    by (intro exI [of _ times] exI [of _ N]) simp
next
  show "py_int lib (PFloat q) = Inr (trunc_zero q)" by simp
  show "\<bar>of_int (trunc_zero q)\<bar> \<le> \<bar>q\<bar>" using trunc_zero_towards_zero [of q] by simp
  show "\<bar>q - of_int (trunc_zero q)\<bar> < 1" using trunc_zero_towards_zero [of q] by simp
  show "py_int lib (PInt n) = Inr n" by simp
  show "py_int lib (PBool b) = Inr (if b then 1 else 0)" by simp
  show "py_int lib (PStr s) = int_of_str lib s" by simp
  show "py_int lib PNone = Inl TypeError" by simp
next
  assume "\<exists>times N. getitem_key daily ''time'' = Inr times \<and> py_len times = Inr N \<and>
          (\<forall>i. 1 \<le> i \<and> i < min N 6 \<longrightarrow>
             (\<exists>s d code icon hi qh lo ql.
                item daily ''time'' i = Inr (PStr s) \<and> fromisoformat lib s = Inr d \<and>
                item daily ''weathercode'' i = Inr code \<and> icon_for code = Inr icon \<and>
                item daily ''temperature_2m_max'' i = Inr hi \<and> number hi = Some qh \<and>
                item daily ''temperature_2m_min'' i = Inr lo \<and> number lo = Some ql))"
  then show "\<exists>fc. parse_forecast lib daily tz = Inr fc"
    by (rule parse_forecast_total)
next
  show "icon_for (PInt n) =
        Inr (case map_of WEATHER_CODE_ICONS n of None \<Rightarrow> ''01d'' | Some icon \<Rightarrow> icon)"
    by (simp add: icon_for_def bind_def split: option.splits)
next
  show "weekday d =
        ((dt_year d - 1) * 365 + (dt_year d - 1) div 4 + (dt_year d - 1) div 400
           - (dt_year d - 1) div 100
         + [0, 31, 59, 90, 120, 151, 181, 212, 243, 273, 304, 334] ! ((dt_month d - 1) mod 12)
         + (if 2 < dt_month d \<and> dt_year d mod 4 = 0 \<and>
               (dt_year d mod 100 \<noteq> 0 \<or> dt_year d mod 400 = 0)
            then 1 else 0)
         + dt_day d + 6) mod 7"
    by (rule weekday_formula)
next
  assume "dt_year d = 2024 \<and> dt_month d = 1 \<and> dt_day d = 1"
  then show "weekday d = 0" by (intro weekday_anchor) simp_all
next
  assume "valid_datetime d"
  then show "weekday (next_day d) = (weekday d + 1) mod 7" by (rule weekday_next_day)
next
  assume "map_of kvs key = Some (PList xs) \<and> j < length xs"
  then show "item (PDict kvs) key j = Inr (xs ! j)" by (simp add: item_def bind_def)
next
  assume "map_of kvs key = Some (PList xs) \<and> length xs \<le> j"
  then show "item (PDict kvs) key j = Inl IndexError" by (simp add: item_def bind_def)
next
  assume "map_of kvs key = None"
  then show "item (PDict kvs) key j = Inl KeyError" by (simp add: item_def bind_def)
next
  show "localtime lib tz v = Inr u \<longleftrightarrow>
        (\<exists>s x. v = PStr s \<and> fromisoformat lib s = Inr x \<and> u = tz x)"
    by (rule localtime_Inr)
next
  assume "map_of kvs key = Some v"
  then show "getitem_key (PDict kvs) key = Inr v" by simp
next
  show "py_len (PList xs) = Inr (length xs)" by simp
qed

theorem parse_forecast_days_witness:
  "(\<exists>fc. parse_forecast example_lib example_daily id = Inr fc \<and> length fc = 5 \<and>
      fc_day (fc ! 0) = ''Sat'' \<and> fc_high (fc ! 0) = 4 \<and> fc_low (fc ! 0) = 1 \<and>
      fc_icon (fc ! 0) = ''/plugins/weather_custom/icons/04d.png'')
   \<and> weekday \<lparr>dt_year = 2024, dt_month = 1, dt_day = 1, dt_hour = 0, dt_minute = 0\<rparr> = 0
   \<and> valid_datetime \<lparr>dt_year = 2024, dt_month = 12, dt_day = 31, dt_hour = 0, dt_minute = 0\<rparr>
   \<and> next_day \<lparr>dt_year = 2024, dt_month = 12, dt_day = 31, dt_hour = 0, dt_minute = 0\<rparr> =
        \<lparr>dt_year = 2025, dt_month = 1, dt_day = 1, dt_hour = 0, dt_minute = 0\<rparr>
   \<and> weekday \<lparr>dt_year = 2024, dt_month = 12, dt_day = 31, dt_hour = 0, dt_minute = 0\<rparr> = 1
   \<and> weekday \<lparr>dt_year = 2025, dt_month = 1, dt_day = 1, dt_hour = 0, dt_minute = 0\<rparr> = 2"
proof (intro conjI)
  let ?eve = "\<lparr>dt_year = 2024, dt_month = 12, dt_day = 31, dt_hour = 0, dt_minute = 0\<rparr>"
  show "weekday \<lparr>dt_year = 2024, dt_month = 1, dt_day = 1, dt_hour = 0, dt_minute = 0\<rparr> = 0"
    by (rule parse_forecast_days [THEN conjunct2, THEN conjunct2, THEN conjunct2, THEN conjunct2,
          THEN conjunct2, THEN conjunct1, THEN mp]) simp
  show v: "valid_datetime ?eve"
    by (simp add: valid_datetime_def days_in_month_def)
  show n: "next_day ?eve = \<lparr>dt_year = 2025, dt_month = 1, dt_day = 1, dt_hour = 0, dt_minute = 0\<rparr>"
    by (simp add: next_day_def days_in_month_def)
  show e: "weekday ?eve = 1"
    by (simp add: parse_forecast_days [THEN conjunct2, THEN conjunct2, THEN conjunct2,
          THEN conjunct2, THEN conjunct1])
  from parse_forecast_days [THEN conjunct2, THEN conjunct2, THEN conjunct2, THEN conjunct2,
      THEN conjunct2, THEN conjunct2, THEN conjunct1, THEN mp, OF v]
  show "weekday \<lparr>dt_year = 2025, dt_month = 1, dt_day = 1, dt_hour = 0, dt_minute = 0\<rparr> = 2"
    unfolding n e by simp
next
  have times: "getitem_key example_daily ''time'' =
      Inr (PList (map PStr [''2024-01-05'', ''2024-01-06'', ''2024-01-07'', ''2024-01-08'',
         ''2024-01-09'', ''2024-01-10'', ''2024-01-11'']))"
    by (simp add: example_daily_def)
  have n: "py_len (PList (map PStr [''2024-01-05'', ''2024-01-06'', ''2024-01-07'', ''2024-01-08'',
         ''2024-01-09'', ''2024-01-10'', ''2024-01-11''])) = Inr 7"
    by simp
  note wf_daily = example_daily_wellformed
  from parse_forecast_days [THEN conjunct2, THEN conjunct2, THEN conjunct1, THEN mp, OF wf_daily]
  obtain fc where fc: "parse_forecast example_lib example_daily id = Inr fc" ..
  from parse_forecast_days [THEN conjunct1, THEN mp, OF fc]
  obtain ts N where ts: "getitem_key example_daily ''time'' = Inr ts" "py_len ts = Inr N"
    and len: "length fc = min 5 (N - 1)"
    and entries: "\<forall>k<length fc. \<exists>t dt code icon hi lo.
            item example_daily ''time'' (k + 1) = Inr t \<and> localtime example_lib id t = Inr dt \<and>
            fc_day (fc ! k) = [''Mon'', ''Tue'', ''Wed'', ''Thu'', ''Fri'', ''Sat'', ''Sun''] ! weekday dt \<and> weekday dt < 7 \<and>
            item example_daily ''weathercode'' (k + 1) = Inr code \<and> icon_for code = Inr icon \<and>
            fc_icon (fc ! k) = get_plugin_dir example_lib (''icons/'' @ icon @ ''.png'') \<and>
            item example_daily ''temperature_2m_max'' (k + 1) = Inr hi \<and>
            py_int example_lib hi = Inr (fc_high (fc ! k)) \<and>
            item example_daily ''temperature_2m_min'' (k + 1) = Inr lo \<and>
            py_int example_lib lo = Inr (fc_low (fc ! k))"
    by (elim exE conjE)
  from ts times n have "N = 7" by simp
  with len have len5: "length fc = 5" by simp
  then have "0 < length fc" by simp
  from entries [rule_format, OF this] obtain t dt code icon hi lo where
    e: "item example_daily ''time'' (0 + 1) = Inr t" "localtime example_lib id t = Inr dt"
       "fc_day (fc ! 0) = [''Mon'', ''Tue'', ''Wed'', ''Thu'', ''Fri'', ''Sat'', ''Sun''] ! weekday dt"
       "item example_daily ''weathercode'' (0 + 1) = Inr code" "icon_for code = Inr icon"
       "fc_icon (fc ! 0) = get_plugin_dir example_lib (''icons/'' @ icon @ ''.png'')"
       "item example_daily ''temperature_2m_max'' (0 + 1) = Inr hi"
       "py_int example_lib hi = Inr (fc_high (fc ! 0))"
       "item example_daily ''temperature_2m_min'' (0 + 1) = Inr lo"
       "py_int example_lib lo = Inr (fc_low (fc ! 0))"
    by (elim exE conjE)
  have "item example_daily ''time'' (0 + 1) = Inr (PStr ''2024-01-06'')"
    "item example_daily ''weathercode'' (0 + 1) = Inr (PInt 3)"
    "item example_daily ''temperature_2m_max'' (0 + 1) = Inr (PFloat (9 / 2))"
    "item example_daily ''temperature_2m_min'' (0 + 1) = Inr (PFloat (3 / 2))"
    by (simp_all add: example_daily_def item_def bind_def)
  with e have v: "t = PStr ''2024-01-06''" "code = PInt 3" "hi = PFloat (9 / 2)" "lo = PFloat (3 / 2)"
    by simp_all
  have "localtime example_lib id (PStr ''2024-01-06'') =
          Inr \<lparr>dt_year = 2024, dt_month = 1, dt_day = 6, dt_hour = 0, dt_minute = 0\<rparr>"
    by code_simp
  with e(2) v(1) have dt: "dt = \<lparr>dt_year = 2024, dt_month = 1, dt_day = 6, dt_hour = 0, dt_minute = 0\<rparr>"
    by simp
  have "[''Mon'', ''Tue'', ''Wed'', ''Thu'', ''Fri'', ''Sat'', ''Sun''] !
      weekday \<lparr>dt_year = 2024, dt_month = 1, dt_day = 6, dt_hour = 0, dt_minute = 0\<rparr> = ''Sat''"
    by (simp add: parse_forecast_days [THEN conjunct2, THEN conjunct2, THEN conjunct2,
          THEN conjunct2, THEN conjunct1])
  with e(3) dt have day: "fc_day (fc ! 0) = ''Sat''" by simp
  have "icon_for (PInt 3) = Inr ''04d''" by code_simp
  with e(5) v(2) have "icon = ''04d''" by simp
  with e(6) have icon: "fc_icon (fc ! 0) = ''/plugins/weather_custom/icons/04d.png''"
    by (simp add: example_lib_def)
  have "trunc_zero (9 / 2) = 4" "trunc_zero (3 / 2) = 1" by code_simp+
  with e(8,10) v(3,4) have "fc_high (fc ! 0) = 4" "fc_low (fc ! 0) = 1" by simp_all
  with fc len5 day icon
  show "\<exists>fc. parse_forecast example_lib example_daily id = Inr fc \<and> length fc = 5 \<and>
      fc_day (fc ! 0) = ''Sat'' \<and> fc_high (fc ! 0) = 4 \<and> fc_low (fc ! 0) = 1 \<and>
      fc_icon (fc ! 0) = ''/plugins/weather_custom/icons/04d.png''"
    by (intro exI [of _ fc]) simp
qed

text \<open>
  C4. When \<open>parse_hourly\<close> returns, it returns exactly 24 entries, entry \<open>i\<close> built from
  index \<open>i\<close> of the hourly series: the local time on the 12-hour clock without a leading
  zero, a space and AM or PM; the temperature rounded to a nearest integer; the rain
  amount as it came. It does return when each of the first 24 indices holds a timestamp
  that parses, a numeric temperature and a rain value; and it raises when one of the
  three series is a list of fewer than 24 entries.

  The hour on the 12-hour clock is the hour of the day modulo 12, with 12 in place of 0:
  midnight and noon print as 12. What \<open>round\<close> gives: an integer is itself, a Boolean is
  0 or 1, a float goes to a nearest integer, to the even one from a tie.
\<close>

theorem parse_hourly_24:
  "(parse_hourly lib hourly tz = Inr hl \<longrightarrow>
      length hl = 24 \<and>
      (\<forall>i<24. \<exists>t dt temp rain.
          item hourly ''time'' i = Inr t \<and> localtime lib tz t = Inr dt \<and>
          h_time (hl ! i) = show_nat (hour12 dt) @ '' '' @ (if dt_hour dt < 12 then ''AM'' else ''PM'') \<and>
          1 \<le> hour12 dt \<and> hour12 dt \<le> 12 \<and> hd (h_time (hl ! i)) \<noteq> CHR ''0'' \<and>
          item hourly ''temperature_2m'' i = Inr temp \<and>
          py_round temp = Inr (h_temperature (hl ! i)) \<and>
          (\<exists>q. number temp = Some q \<and> \<bar>of_int (h_temperature (hl ! i)) - q\<bar> \<le> 1 / 2) \<and>
          item hourly ''rain'' i = Inr rain \<and> h_precipitiation (hl ! i) = rain))
   \<and> ((\<forall>i<24. \<exists>s d temp q rain.
          item hourly ''time'' i = Inr (PStr s) \<and> fromisoformat lib s = Inr d \<and>
          item hourly ''temperature_2m'' i = Inr temp \<and> number temp = Some q \<and>
          item hourly ''rain'' i = Inr rain)
        \<longrightarrow> (\<exists>hl. parse_hourly lib hourly tz = Inr hl))
   \<and> ((\<exists>k xs. k \<in> {''time'', ''temperature_2m'', ''rain''} \<and>
          getitem_key hourly k = Inr (PList xs) \<and> length xs < 24)
        \<longrightarrow> (\<exists>e. parse_hourly lib hourly tz = Inl e))
   \<and> (hour12 d mod 12 = dt_hour d mod 12 \<and> 1 \<le> hour12 d \<and> hour12 d \<le> 12 \<and>
        show_nat (hour12 d) =
          ([''12'', ''1'', ''2'', ''3'', ''4'', ''5''] @ [''6'', ''7'', ''8'', ''9'', ''10'', ''11'']) ! (dt_hour d mod 12))
   \<and> (py_round (PInt n) = Inr n \<and> py_round (PBool b) = Inr (if b then 1 else 0) \<and>
        py_round (PFloat q) = Inr (round_half_even q) \<and>
        \<bar>of_int (round_half_even q) - q\<bar> \<le> 1 / 2 \<and>
        py_round PNone = Inl TypeError \<and> py_round (PStr s) = Inl TypeError \<and>
        number (PInt n) = Some (of_int n) \<and> number (PBool b) = Some (if b then 1 else 0) \<and>
        number (PFloat q) = Some q)
   \<and> (q - of_int \<lfloor>q\<rfloor> = 1 / 2 \<longrightarrow> even (round_half_even q))
   \<and> (map_of kvs key = Some (PList xs) \<and> j < length xs \<longrightarrow>
        item (PDict kvs) key j = Inr (xs ! j))
   \<and> (map_of kvs key = Some (PList xs) \<and> length xs \<le> j \<longrightarrow>
        item (PDict kvs) key j = Inl IndexError)
   \<and> (map_of kvs key = None \<longrightarrow> item (PDict kvs) key j = Inl KeyError)
   \<and> (localtime lib tz v = Inr u \<longleftrightarrow>
        (\<exists>s x. v = PStr s \<and> fromisoformat lib s = Inr x \<and> u = tz x))"
proof (intro conjI impI)
  assume ok: "parse_hourly lib hourly tz = Inr hl"
  from for_range_Inr [OF ok [unfolded parse_hourly_def]]
  have len: "length hl = 24" and body: "\<forall>k<24. hourly_hour lib hourly tz k = Inr (hl ! k)"
    by auto
  show "length hl = 24" by (rule len)
  show "\<forall>i<24. \<exists>t dt temp rain.
          item hourly ''time'' i = Inr t \<and> localtime lib tz t = Inr dt \<and>
          h_time (hl ! i) = show_nat (hour12 dt) @ '' '' @ (if dt_hour dt < 12 then ''AM'' else ''PM'') \<and>
          1 \<le> hour12 dt \<and> hour12 dt \<le> 12 \<and> hd (h_time (hl ! i)) \<noteq> CHR ''0'' \<and>
          item hourly ''temperature_2m'' i = Inr temp \<and>
          py_round temp = Inr (h_temperature (hl ! i)) \<and>
          (\<exists>q. number temp = Some q \<and> \<bar>of_int (h_temperature (hl ! i)) - q\<bar> \<le> 1 / 2) \<and>
          item hourly ''rain'' i = Inr rain \<and> h_precipitiation (hl ! i) = rain"
  proof (intro allI impI)
    fix i :: nat assume "i < 24"
    with body have "hourly_hour lib hourly tz i = Inr (hl ! i)" by simp
    then obtain t dt temp rounded rain where
      t: "item hourly ''time'' i = Inr t" "localtime lib tz t = Inr dt" and
      temp: "item hourly ''temperature_2m'' i = Inr temp" "py_round temp = Inr rounded" and
      rain: "item hourly ''rain'' i = Inr rain" and
      e: "hl ! i = \<lparr>h_time = strftime_I_p dt, h_temperature = rounded, h_precipitiation = rain\<rparr>"
      unfolding hourly_hour_Inr by blast
    have h: "1 \<le> hour12 dt \<and> hour12 dt \<le> 12" by (rule hour12_range)
    then have "hd (show_nat (hour12 dt)) \<noteq> CHR ''0''" by (simp add: show_nat_hd)
    then have hd0: "hd (h_time (hl ! i)) \<noteq> CHR ''0''"
      by (simp add: e strftime_I_p_def show_nat_nonempty)
    from py_round_nearest [OF temp(2)]
    have near: "\<exists>q. number temp = Some q \<and> \<bar>of_int rounded - q\<bar> \<le> 1 / 2" .
    show "\<exists>t dt temp rain.
          item hourly ''time'' i = Inr t \<and> localtime lib tz t = Inr dt \<and>
          h_time (hl ! i) = show_nat (hour12 dt) @ '' '' @ (if dt_hour dt < 12 then ''AM'' else ''PM'') \<and>
          1 \<le> hour12 dt \<and> hour12 dt \<le> 12 \<and> hd (h_time (hl ! i)) \<noteq> CHR ''0'' \<and>
          item hourly ''temperature_2m'' i = Inr temp \<and>
          py_round temp = Inr (h_temperature (hl ! i)) \<and>
          (\<exists>q. number temp = Some q \<and> \<bar>of_int (h_temperature (hl ! i)) - q\<bar> \<le> 1 / 2) \<and>
          item hourly ''rain'' i = Inr rain \<and> h_precipitiation (hl ! i) = rain"
      using t temp rain h hd0 near
      by (intro exI [of _ t] exI [of _ dt] exI [of _ temp] exI [of _ rain])
         (simp add: e strftime_I_p_def strftime_p_def)
  qed
next
  assume "\<forall>i<24. \<exists>s d temp q rain.
          item hourly ''time'' i = Inr (PStr s) \<and> fromisoformat lib s = Inr d \<and>
          item hourly ''temperature_2m'' i = Inr temp \<and> number temp = Some q \<and>
          item hourly ''rain'' i = Inr rain"
  then show "\<exists>hl. parse_hourly lib hourly tz = Inr hl"
    by (rule parse_hourly_total)
next
  assume "\<exists>k xs. k \<in> {''time'', ''temperature_2m'', ''rain''} \<and>
          getitem_key hourly k = Inr (PList xs) \<and> length xs < 24"
  then obtain k xs where k: "k \<in> {''time'', ''temperature_2m'', ''rain''}"
    and xs: "getitem_key hourly k = Inr (PList xs)" "length xs < 24"
    by blast
  have short: "item hourly k (length xs) = Inl IndexError"
    using xs(1) by (rule item_short) simp
  have "\<exists>e. hourly_hour lib hourly tz (length xs) = Inl e"
  proof (cases "hourly_hour lib hourly tz (length xs)")
    case (Inl e) then show ?thesis by blast
  next
    case (Inr x)
    then show ?thesis using k short unfolding hourly_hour_Inr by auto
  qed
  then obtain e where e: "hourly_hour lib hourly tz (length xs) = Inl e" ..
  have "\<exists>e'. for_range (hourly_hour lib hourly tz) 0 24 [] = Inl e'"
    using for_range_fails [of 0 "length xs" 24 "hourly_hour lib hourly tz" e "[]"] xs(2) e
    by simp
  then show "\<exists>e. parse_hourly lib hourly tz = Inl e"
    unfolding parse_hourly_def .
next
  show "hour12 d mod 12 = dt_hour d mod 12" by (rule hour12_mod)
  show "1 \<le> hour12 d" "hour12 d \<le> 12" using hour12_range [of d] by simp_all
  show "show_nat (hour12 d) =
          ([''12'', ''1'', ''2'', ''3'', ''4'', ''5''] @ [''6'', ''7'', ''8'', ''9'', ''10'', ''11'']) ! (dt_hour d mod 12)"
    by (rule show_nat_hour12)
next
  show "py_round (PInt n) = Inr n" by simp
  show "py_round (PBool b) = Inr (if b then 1 else 0)" by simp
  show "py_round (PFloat q) = Inr (round_half_even q)" by simp
  show "\<bar>of_int (round_half_even q) - q\<bar> \<le> 1 / 2" by (rule round_half_even_nearest)
  show "py_round PNone = Inl TypeError" by simp
  show "py_round (PStr s) = Inl TypeError" by simp
  show "number (PInt n) = Some (of_int n)" by simp
  show "number (PBool b) = Some (if b then 1 else 0)" by simp
  show "number (PFloat q) = Some q" by simp
next
  assume "q - of_int \<lfloor>q\<rfloor> = 1 / 2"
  then show "even (round_half_even q)" by (rule round_half_even_tie)
next
  assume "map_of kvs key = Some (PList xs) \<and> j < length xs"
  then show "item (PDict kvs) key j = Inr (xs ! j)" by (simp add: item_def bind_def)
next
  assume "map_of kvs key = Some (PList xs) \<and> length xs \<le> j"
  then show "item (PDict kvs) key j = Inl IndexError" by (simp add: item_def bind_def)
next
  assume "map_of kvs key = None"
  then show "item (PDict kvs) key j = Inl KeyError" by (simp add: item_def bind_def)
next
  show "localtime lib tz v = Inr u \<longleftrightarrow>
        (\<exists>s x. v = PStr s \<and> fromisoformat lib s = Inr x \<and> u = tz x)"
    by (rule localtime_Inr)
qed

theorem parse_hourly_24_witness:
  "(\<exists>hl. parse_hourly example_lib example_hourly id = Inr hl \<and> length hl = 24 \<and>
      h_time (hl ! 13) = ''1 PM'' \<and> h_temperature (hl ! 13) = 6 \<and>
      h_precipitiation (hl ! 13) = PFloat (13 / 8))
   \<and> (\<exists>e. parse_hourly example_lib example_hourly_short id = Inl e)
   \<and> show_nat (hour12 \<lparr>dt_year = 2024, dt_month = 1, dt_day = 5, dt_hour = 0, dt_minute = 0\<rparr>) = ''12''
   \<and> show_nat (hour12 \<lparr>dt_year = 2024, dt_month = 1, dt_day = 5, dt_hour = 12, dt_minute = 0\<rparr>) = ''12''
   \<and> even (round_half_even (13 / 2))
   \<and> item (PDict [(''rain'', PList [PInt 0, PInt 2])]) ''rain'' 1 = Inr (PInt 2)
   \<and> item (PDict [(''rain'', PList [PInt 0, PInt 2])]) ''rain'' 2 = Inl IndexError
   \<and> item (PDict [(''rain'', PList [PInt 0, PInt 2])]) ''time'' 0 = Inl KeyError"
proof (intro conjI)
  note wf = example_hourly_wellformed
  from parse_hourly_24 [THEN conjunct2, THEN conjunct1, THEN mp, OF wf]
  obtain hl where hl: "parse_hourly example_lib example_hourly id = Inr hl" ..
  from parse_hourly_24 [THEN conjunct1, THEN mp, OF hl]
  have len: "length hl = 24" and all: "\<forall>i<24. \<exists>t dt temp rain.
          item example_hourly ''time'' i = Inr t \<and> localtime example_lib id t = Inr dt \<and>
          h_time (hl ! i) = show_nat (hour12 dt) @ '' '' @ (if dt_hour dt < 12 then ''AM'' else ''PM'') \<and>
          1 \<le> hour12 dt \<and> hour12 dt \<le> 12 \<and> hd (h_time (hl ! i)) \<noteq> CHR ''0'' \<and>
          item example_hourly ''temperature_2m'' i = Inr temp \<and>
          py_round temp = Inr (h_temperature (hl ! i)) \<and>
          (\<exists>q. number temp = Some q \<and> \<bar>of_int (h_temperature (hl ! i)) - q\<bar> \<le> 1 / 2) \<and>
          item example_hourly ''rain'' i = Inr rain \<and> h_precipitiation (hl ! i) = rain"
    by (rule conjunct1, rule conjunct2)
  have "(13::nat) < 24" by simp
  with all have "\<exists>t dt temp rain.
          item example_hourly ''time'' 13 = Inr t \<and> localtime example_lib id t = Inr dt \<and>
          h_time (hl ! 13) = show_nat (hour12 dt) @ '' '' @ (if dt_hour dt < 12 then ''AM'' else ''PM'') \<and>
          1 \<le> hour12 dt \<and> hour12 dt \<le> 12 \<and> hd (h_time (hl ! 13)) \<noteq> CHR ''0'' \<and>
          item example_hourly ''temperature_2m'' 13 = Inr temp \<and>
          py_round temp = Inr (h_temperature (hl ! 13)) \<and>
          (\<exists>q. number temp = Some q \<and> \<bar>of_int (h_temperature (hl ! 13)) - q\<bar> \<le> 1 / 2) \<and>
          item example_hourly ''rain'' 13 = Inr rain \<and> h_precipitiation (hl ! 13) = rain"
    by (elim allE impE) assumption
  then obtain t dt temp rain where
    t: "item example_hourly ''time'' 13 = Inr t" "localtime example_lib id t = Inr dt" and
    e: "h_time (hl ! 13) = show_nat (hour12 dt) @ '' '' @ (if dt_hour dt < 12 then ''AM'' else ''PM'')"
       "py_round temp = Inr (h_temperature (hl ! 13))" "h_precipitiation (hl ! 13) = rain" and
    v: "item example_hourly ''temperature_2m'' 13 = Inr temp" "item example_hourly ''rain'' 13 = Inr rain"
    by (elim exE conjE)
  have "item example_hourly ''time'' 13 = Inr (PStr ''2024-01-05T13:00'')"
    "item example_hourly ''temperature_2m'' 13 = Inr (PFloat (13 / 2))"
    "item example_hourly ''rain'' 13 = Inr (PFloat (13 / 8))"
    by code_simp+
  with t v have t': "t = PStr ''2024-01-05T13:00''" and temp: "temp = PFloat (13 / 2)"
    and rain: "rain = PFloat (13 / 8)" by simp_all
  have "localtime example_lib id (PStr ''2024-01-05T13:00'') =
          Inr \<lparr>dt_year = 2024, dt_month = 1, dt_day = 5, dt_hour = 13, dt_minute = 0\<rparr>"
    by code_simp
  with t(2) t' have dt: "dt = \<lparr>dt_year = 2024, dt_month = 1, dt_day = 5, dt_hour = 13, dt_minute = 0\<rparr>"
    by simp
  have "show_nat (hour12 \<lparr>dt_year = 2024, dt_month = 1, dt_day = 5, dt_hour = 13, dt_minute = 0\<rparr>) = ''1''"
    by (simp add: parse_hourly_24 [THEN conjunct2, THEN conjunct2, THEN conjunct2, THEN conjunct1])
  with e(1) dt have "h_time (hl ! 13) = ''1 PM''" by simp
  moreover have "round_half_even (13 / 2) = 6" by code_simp
  with e(2) temp have "h_temperature (hl ! 13) = 6" by simp
  ultimately show "\<exists>hl. parse_hourly example_lib example_hourly id = Inr hl \<and> length hl = 24 \<and>
      h_time (hl ! 13) = ''1 PM'' \<and> h_temperature (hl ! 13) = 6 \<and>
      h_precipitiation (hl ! 13) = PFloat (13 / 8)"
    using hl len e(3) rain by (intro exI [of _ hl]) simp
next
  have "getitem_key example_hourly_short ''temperature_2m'' =
          Inr (PList (map (\<lambda>h. PFloat (of_nat h / 2)) [0..<23]))"
    by (simp add: example_hourly_short_def)
  moreover have "length (map (\<lambda>h. PFloat (rat_of_nat h / 2)) [0..<23]) < 24" by simp
  ultimately have "\<exists>k xs. k \<in> {''time'', ''temperature_2m'', ''rain''} \<and>
          getitem_key example_hourly_short k = Inr (PList xs) \<and> length xs < 24"
    by (intro exI [of _ "''temperature_2m''"] exI [of _ "map (\<lambda>h. PFloat (of_nat h / 2)) [0..<23]"]) simp
  then show "\<exists>e. parse_hourly example_lib example_hourly_short id = Inl e"
    by (rule parse_hourly_24 [THEN conjunct2, THEN conjunct2, THEN conjunct1, THEN mp])
next
  note clock = parse_hourly_24 [THEN conjunct2, THEN conjunct2, THEN conjunct2, THEN conjunct1]
  show "show_nat (hour12 \<lparr>dt_year = 2024, dt_month = 1, dt_day = 5, dt_hour = 0, dt_minute = 0\<rparr>) = ''12''"
    by (simp add: clock)
  show "show_nat (hour12 \<lparr>dt_year = 2024, dt_month = 1, dt_day = 5, dt_hour = 12, dt_minute = 0\<rparr>) = ''12''"
    by (simp add: clock)
next
  have "\<lfloor>13 / 2 :: rat\<rfloor> = 6" by code_simp
  then have "(13 / 2 :: rat) - of_int \<lfloor>13 / 2 :: rat\<rfloor> = 1 / 2" by simp
  then show "even (round_half_even (13 / 2))"
    by (rule parse_hourly_24 [THEN conjunct2, THEN conjunct2, THEN conjunct2, THEN conjunct2,
          THEN conjunct2, THEN conjunct1, THEN mp])
next
  note reading = parse_hourly_24 [THEN conjunct2, THEN conjunct2, THEN conjunct2, THEN conjunct2,
      THEN conjunct2, THEN conjunct2]
  have "map_of [(''rain'', PList [PInt 0, PInt 2])] ''rain'' = Some (PList [PInt 0, PInt 2]) \<and>
        1 < length [PInt 0, PInt 2]" by simp
  from reading [THEN conjunct1, THEN mp, OF this]
  show "item (PDict [(''rain'', PList [PInt 0, PInt 2])]) ''rain'' 1 = Inr (PInt 2)" by simp
  have "map_of [(''rain'', PList [PInt 0, PInt 2])] ''rain'' = Some (PList [PInt 0, PInt 2]) \<and>
        length [PInt 0, PInt 2] \<le> 2" by simp
  from reading [THEN conjunct2, THEN conjunct1, THEN mp, OF this]
  show "item (PDict [(''rain'', PList [PInt 0, PInt 2])]) ''rain'' 2 = Inl IndexError" .
  have "map_of [(''rain'', PList [PInt 0, PInt 2])] ''time'' = None" by simp
  from reading [THEN conjunct2, THEN conjunct2, THEN conjunct1, THEN mp, OF this]
  show "item (PDict [(''rain'', PList [PInt 0, PInt 2])]) ''time'' 0 = Inl KeyError" .
qed

text \<open>
  C8. When \<open>parse_data_points\<close> returns, its first two entries are Sunrise and Sunset.
  The measurement of each is the local time as the hour on the 12-hour clock without a
  leading zero, a colon and the minute; the unit is AM or PM, a field of its own. The
  hour never starts with a zero (it is between 1 and 12), and the minute keeps its two
  digits: \<^verbatim>\<open>lstrip\<close> stops at the first digit of the hour. At 06:05 the measurement is
  "6:05" and the unit "AM".

  The hour on the 12-hour clock is the hour of the day modulo 12, with 12 in place of 0,
  so that the measurement is a function of the hour and the minute of the local time:
  "12:05" five minutes after midnight, "12:30" half an hour after noon.
\<close>

theorem sunrise_sunset_format:
  "(parse_data_points lib current daily tz air_quality st = (Inr dps, st') \<longrightarrow>
      (\<exists>sunrise sr sunset ss.
         item daily ''sunrise'' 0 = Inr sunrise \<and> localtime lib tz sunrise = Inr sr \<and>
         item daily ''sunset'' 0 = Inr sunset \<and> localtime lib tz sunset = Inr ss \<and>
         dp_label (dps ! 0) = ''Sunrise'' \<and>
         dp_measurement (dps ! 0) = PStr (show_nat (hour12 sr) @ '':'' @ pad2 (dt_minute sr)) \<and>
         dp_unit (dps ! 0) = (if dt_hour sr < 12 then ''AM'' else ''PM'') \<and>
         dp_label (dps ! 1) = ''Sunset'' \<and>
         dp_measurement (dps ! 1) = PStr (show_nat (hour12 ss) @ '':'' @ pad2 (dt_minute ss)) \<and>
         dp_unit (dps ! 1) = (if dt_hour ss < 12 then ''AM'' else ''PM'')))
   \<and> (hd (show_nat (hour12 d)) \<noteq> CHR ''0'' \<and> 1 \<le> hour12 d \<and> hour12 d \<le> 12)
   \<and> (dt_minute d < 60 \<longrightarrow>
        pad2 (dt_minute d) =
          [''0123456789'' ! (dt_minute d div 10), ''0123456789'' ! (dt_minute d mod 10)])
   \<and> (dt_hour d = 6 \<and> dt_minute d = 5 \<longrightarrow>
        lstrip0 (strftime_I_M d) = ''6:05'' \<and> strftime_p d = ''AM'')
   \<and> (hour12 d mod 12 = dt_hour d mod 12 \<and>
        show_nat (hour12 d) =
          ([''12'', ''1'', ''2'', ''3'', ''4'', ''5''] @ [''6'', ''7'', ''8'', ''9'', ''10'', ''11'']) ! (dt_hour d mod 12))
   \<and> (dt_minute d < 60 \<longrightarrow>
        lstrip0 (strftime_I_M d) =
          ([''12'', ''1'', ''2'', ''3'', ''4'', ''5''] @ [''6'', ''7'', ''8'', ''9'', ''10'', ''11'']) ! (dt_hour d mod 12) @ '':'' @
          [''0123456789'' ! (dt_minute d div 10), ''0123456789'' ! (dt_minute d mod 10)])
   \<and> strftime_p d = (if dt_hour d < 12 then ''AM'' else ''PM'')
   \<and> (map_of kvs key = Some (PList xs) \<and> j < length xs \<longrightarrow>
        item (PDict kvs) key j = Inr (xs ! j))
   \<and> (map_of kvs key = Some (PList xs) \<and> length xs \<le> j \<longrightarrow>
        item (PDict kvs) key j = Inl IndexError)
   \<and> (map_of kvs key = None \<longrightarrow> item (PDict kvs) key j = Inl KeyError)
   \<and> (localtime lib tz v = Inr u \<longleftrightarrow>
        (\<exists>s x. v = PStr s \<and> fromisoformat lib s = Inr x \<and> u = tz x))"
proof (intro conjI impI)
  assume "parse_data_points lib current daily tz air_quality st = (Inr dps, st')"
  then obtain base where base: "base_data_points lib current daily tz = Inr base"
    and dps: "dps = base \<or> (\<exists>p. dps = base @ [p])"
    unfolding parse_data_points_Inr by (auto split: if_splits sum.splits)
  from base obtain sunrise sr sunset ss rest where
    s: "item daily ''sunrise'' 0 = Inr sunrise" "localtime lib tz sunrise = Inr sr"
       "item daily ''sunset'' 0 = Inr sunset" "localtime lib tz sunset = Inr ss" and
    b: "base =
          \<lparr>dp_label = ''Sunrise'', dp_measurement = PStr (lstrip0 (strftime_I_M sr)),
            dp_unit = strftime_p sr, dp_icon = get_plugin_dir lib ''icons/sunrise.png''\<rparr> #
          \<lparr>dp_label = ''Sunset'', dp_measurement = PStr (lstrip0 (strftime_I_M ss)),
            dp_unit = strftime_p ss, dp_icon = get_plugin_dir lib ''icons/sunset.png''\<rparr> # rest"
    unfolding base_data_points_Inr by blast
  have strip: "lstrip0 (strftime_I_M x) = show_nat (hour12 x) @ '':'' @ pad2 (dt_minute x)" for x
    using hour12_range [of x] by (simp add: strftime_I_M_def lstrip0_hour)
  from dps b have
    "dps ! 0 = \<lparr>dp_label = ''Sunrise'', dp_measurement = PStr (lstrip0 (strftime_I_M sr)),
            dp_unit = strftime_p sr, dp_icon = get_plugin_dir lib ''icons/sunrise.png''\<rparr>"
    "dps ! 1 = \<lparr>dp_label = ''Sunset'', dp_measurement = PStr (lstrip0 (strftime_I_M ss)),
            dp_unit = strftime_p ss, dp_icon = get_plugin_dir lib ''icons/sunset.png''\<rparr>"
    by auto
  with s show "\<exists>sunrise sr sunset ss.
         item daily ''sunrise'' 0 = Inr sunrise \<and> localtime lib tz sunrise = Inr sr \<and>
         item daily ''sunset'' 0 = Inr sunset \<and> localtime lib tz sunset = Inr ss \<and>
         dp_label (dps ! 0) = ''Sunrise'' \<and>
         dp_measurement (dps ! 0) = PStr (show_nat (hour12 sr) @ '':'' @ pad2 (dt_minute sr)) \<and>
         dp_unit (dps ! 0) = (if dt_hour sr < 12 then ''AM'' else ''PM'') \<and>
         dp_label (dps ! 1) = ''Sunset'' \<and>
         dp_measurement (dps ! 1) = PStr (show_nat (hour12 ss) @ '':'' @ pad2 (dt_minute ss)) \<and>
         dp_unit (dps ! 1) = (if dt_hour ss < 12 then ''AM'' else ''PM'')"
    by (intro exI [of _ sunrise] exI [of _ sr] exI [of _ sunset] exI [of _ ss])
       (simp add: strip strftime_p_def)
next
  show "hd (show_nat (hour12 d)) \<noteq> CHR ''0''"
    using hour12_range [of d] by (intro show_nat_hd) simp
  show "1 \<le> hour12 d" "hour12 d \<le> 12" using hour12_range [of d] by simp_all
next
  assume "dt_minute d < 60"
  then show "pad2 (dt_minute d) =
          [''0123456789'' ! (dt_minute d div 10), ''0123456789'' ! (dt_minute d mod 10)]"
    by (intro pad2_decimal) simp
next
  assume h: "dt_hour d = 6 \<and> dt_minute d = 5"
  then have "hour12 d = 6" by (simp add: hour12_def)
  with h show "lstrip0 (strftime_I_M d) = ''6:05''"
    by (simp add: strftime_I_M_def lstrip0_def pad2_def show_nat.simps [of 6]
          show_nat.simps [of 5] digit_char_def)
  from h show "strftime_p d = ''AM''" by (simp add: strftime_p_def)
next
  show "hour12 d mod 12 = dt_hour d mod 12" by (rule hour12_mod)
  show "show_nat (hour12 d) =
          ([''12'', ''1'', ''2'', ''3'', ''4'', ''5''] @ [''6'', ''7'', ''8'', ''9'', ''10'', ''11'']) ! (dt_hour d mod 12)"
    by (rule show_nat_hour12)
next
  assume "dt_minute d < 60"
  then have "pad2 (dt_minute d) =
          [''0123456789'' ! (dt_minute d div 10), ''0123456789'' ! (dt_minute d mod 10)]"
    by (intro pad2_decimal) simp
  moreover have "lstrip0 (strftime_I_M d) = show_nat (hour12 d) @ '':'' @ pad2 (dt_minute d)"
    using hour12_range [of d] by (simp add: strftime_I_M_def lstrip0_hour)
  ultimately show "lstrip0 (strftime_I_M d) =
          ([''12'', ''1'', ''2'', ''3'', ''4'', ''5''] @ [''6'', ''7'', ''8'', ''9'', ''10'', ''11'']) ! (dt_hour d mod 12) @ '':'' @
          [''0123456789'' ! (dt_minute d div 10), ''0123456789'' ! (dt_minute d mod 10)]"
    by (simp add: show_nat_hour12)
next
  show "strftime_p d = (if dt_hour d < 12 then ''AM'' else ''PM'')" by (simp add: strftime_p_def)
next
  assume "map_of kvs key = Some (PList xs) \<and> j < length xs"
  then show "item (PDict kvs) key j = Inr (xs ! j)" by (simp add: item_def bind_def)
next
  assume "map_of kvs key = Some (PList xs) \<and> length xs \<le> j"
  then show "item (PDict kvs) key j = Inl IndexError" by (simp add: item_def bind_def)
next
  assume "map_of kvs key = None"
  then show "item (PDict kvs) key j = Inl KeyError" by (simp add: item_def bind_def)
next
  show "localtime lib tz v = Inr u \<longleftrightarrow>
        (\<exists>s x. v = PStr s \<and> fromisoformat lib s = Inr x \<and> u = tz x)"
    by (rule localtime_Inr)
qed

theorem sunrise_sunset_format_witness:
  "(\<exists>dps st'. parse_data_points example_lib example_current example_daily id PNone state0 = (Inr dps, st') \<and>
      dp_label (dps ! 0) = ''Sunrise'' \<and> dp_measurement (dps ! 0) = PStr ''6:05'' \<and>
      dp_unit (dps ! 0) = ''AM'' \<and>
      dp_label (dps ! 1) = ''Sunset'' \<and> dp_measurement (dps ! 1) = PStr ''5:40'' \<and>
      dp_unit (dps ! 1) = ''PM'')
   \<and> lstrip0 (strftime_I_M \<lparr>dt_year = 2024, dt_month = 1, dt_day = 5, dt_hour = 0, dt_minute = 5\<rparr>)
        = ''12:05''
   \<and> lstrip0 (strftime_I_M \<lparr>dt_year = 2024, dt_month = 1, dt_day = 5, dt_hour = 12, dt_minute = 30\<rparr>)
        = ''12:30''
   \<and> lstrip0 (strftime_I_M \<lparr>dt_year = 2024, dt_month = 1, dt_day = 5, dt_hour = 6, dt_minute = 5\<rparr>)
        = ''6:05''"
proof (intro conjI)
  note time = sunrise_sunset_format [THEN conjunct2, THEN conjunct2, THEN conjunct2,
      THEN conjunct2, THEN conjunct2, THEN conjunct1, THEN mp]
  have "dt_minute \<lparr>dt_year = 2024, dt_month = 1, dt_day = 5, dt_hour = 0, dt_minute = 5\<rparr> < 60"
    by simp
  from time [OF this]
  show "lstrip0 (strftime_I_M \<lparr>dt_year = 2024, dt_month = 1, dt_day = 5, dt_hour = 0, dt_minute = 5\<rparr>)
        = ''12:05''" by simp
  have "dt_minute \<lparr>dt_year = 2024, dt_month = 1, dt_day = 5, dt_hour = 12, dt_minute = 30\<rparr> < 60"
    by simp
  from time [OF this]
  show "lstrip0 (strftime_I_M \<lparr>dt_year = 2024, dt_month = 1, dt_day = 5, dt_hour = 12, dt_minute = 30\<rparr>)
        = ''12:30''" by simp
  have "dt_hour \<lparr>dt_year = 2024, dt_month = 1, dt_day = 5, dt_hour = 6, dt_minute = 5\<rparr> = 6 \<and>
        dt_minute \<lparr>dt_year = 2024, dt_month = 1, dt_day = 5, dt_hour = 6, dt_minute = 5\<rparr> = 5"
    by simp
  from sunrise_sunset_format [THEN conjunct2, THEN conjunct2, THEN conjunct2, THEN conjunct1,
      THEN mp, OF this]
  show "lstrip0 (strftime_I_M \<lparr>dt_year = 2024, dt_month = 1, dt_day = 5, dt_hour = 6, dt_minute = 5\<rparr>)
        = ''6:05''" by simp
next
  from example_base_data_points obtain base where
    "base_data_points example_lib example_current example_daily id = Inr base" ..
  from parse_data_points_total [OF this] obtain dps st' where
    ok: "parse_data_points example_lib example_current example_daily id PNone state0 = (Inr dps, st')"
    by blast
  from sunrise_sunset_format [THEN conjunct1, THEN mp, OF ok]
  obtain sunrise sr sunset ss where
    s: "item example_daily ''sunrise'' 0 = Inr sunrise" "localtime example_lib id sunrise = Inr sr"
       "item example_daily ''sunset'' 0 = Inr sunset" "localtime example_lib id sunset = Inr ss" and
    r: "dp_label (dps ! 0) = ''Sunrise''"
       "dp_measurement (dps ! 0) = PStr (show_nat (hour12 sr) @ '':'' @ pad2 (dt_minute sr))"
       "dp_unit (dps ! 0) = (if dt_hour sr < 12 then ''AM'' else ''PM'')"
       "dp_label (dps ! 1) = ''Sunset''"
       "dp_measurement (dps ! 1) = PStr (show_nat (hour12 ss) @ '':'' @ pad2 (dt_minute ss))"
       "dp_unit (dps ! 1) = (if dt_hour ss < 12 then ''AM'' else ''PM'')"
    by (elim exE conjE)
  have "item example_daily ''sunrise'' 0 = Inr (PStr ''2024-01-05T06:05'')"
    "item example_daily ''sunset'' 0 = Inr (PStr ''2024-01-05T17:40'')"
    by (simp_all add: example_daily_def item_def bind_def)
  with s have v: "sunrise = PStr ''2024-01-05T06:05''" "sunset = PStr ''2024-01-05T17:40''"
    by simp_all
  have "localtime example_lib id (PStr ''2024-01-05T06:05'') =
          Inr \<lparr>dt_year = 2024, dt_month = 1, dt_day = 5, dt_hour = 6, dt_minute = 5\<rparr>"
    "localtime example_lib id (PStr ''2024-01-05T17:40'') =
          Inr \<lparr>dt_year = 2024, dt_month = 1, dt_day = 5, dt_hour = 17, dt_minute = 40\<rparr>"
    by code_simp+
  with s v have dt: "sr = \<lparr>dt_year = 2024, dt_month = 1, dt_day = 5, dt_hour = 6, dt_minute = 5\<rparr>"
    "ss = \<lparr>dt_year = 2024, dt_month = 1, dt_day = 5, dt_hour = 17, dt_minute = 40\<rparr>"
    by simp_all
  have "show_nat (hour12 sr) @ '':'' @ pad2 (dt_minute sr) = ''6:05''"
    "show_nat (hour12 ss) @ '':'' @ pad2 (dt_minute ss) = ''5:40''"
    unfolding dt by code_simp+
  with r dt ok
  show "\<exists>dps st'. parse_data_points example_lib example_current example_daily id PNone state0 = (Inr dps, st') \<and>
      dp_label (dps ! 0) = ''Sunrise'' \<and> dp_measurement (dps ! 0) = PStr ''6:05'' \<and>
      dp_unit (dps ! 0) = ''AM'' \<and>
      dp_label (dps ! 1) = ''Sunset'' \<and> dp_measurement (dps ! 1) = PStr ''5:40'' \<and>
      dp_unit (dps ! 1) = ''PM''"
    by (intro exI [of _ dps] exI [of _ st']) simp
qed

text \<open>
  C2. When \<open>parse_weather_data\<close> returns, the icon of the current day is the path of the
  icon that \<open>WEATHER_CODE_ICONS\<close> holds for \<^verbatim>\<open>daily["weathercode"][0]\<close>. The lookup gives
  the icon stored under the code, and \<^verbatim>\<open>01d\<close>, the clear-sky icon stored under code 0,
  for every code that is not a key of the table: 100 gives \<^verbatim>\<open>01d\<close>, while 61 gives its
  own icon \<^verbatim>\<open>10d\<close>.
\<close>

theorem current_day_icon_lookup:
  "(parse_weather_data lib data air_quality tz st = (Inr params, st') \<longrightarrow>
      (\<exists>daily code icon.
         getitem_key data ''daily'' = Inr daily \<and> item daily ''weathercode'' 0 = Inr code \<and>
         icon_for code = Inr icon \<and>
         current_day_icon params = get_plugin_dir lib (''icons/'' @ icon @ ''.png'')))
   \<and> (map_of WEATHER_CODE_ICONS n = Some icon \<longrightarrow> icon_for (PInt n) = Inr icon)
   \<and> (n \<notin> fst ` set WEATHER_CODE_ICONS \<longrightarrow> icon_for (PInt n) = Inr ''01d'')
   \<and> map_of WEATHER_CODE_ICONS 0 = Some ''01d''
   \<and> icon_for (PInt 100) = Inr ''01d''
   \<and> icon_for (PInt 61) = Inr ''10d''"
proof (intro conjI impI)
  assume "parse_weather_data lib data air_quality tz st = (Inr params, st')"
  then obtain current daily p dps where
    f: "weather_fields lib data tz = Inr (current, daily, p)" and
    params: "params = p\<lparr>data_points := dps\<rparr>"
    unfolding parse_weather_data_Inr by blast
  from f obtain code icon where
    "getitem_key data ''daily'' = Inr daily" "item daily ''weathercode'' 0 = Inr code"
    "icon_for code = Inr icon" "current_day_icon p = icon_path lib icon"
    unfolding weather_fields_Inr by auto
  with params show "\<exists>daily code icon.
         getitem_key data ''daily'' = Inr daily \<and> item daily ''weathercode'' 0 = Inr code \<and>
         icon_for code = Inr icon \<and>
         current_day_icon params = get_plugin_dir lib (''icons/'' @ icon @ ''.png'')"
    by (intro exI [of _ daily] exI [of _ code] exI [of _ icon]) (simp add: icon_path_def)
next
  assume "map_of WEATHER_CODE_ICONS n = Some icon"
  then show "icon_for (PInt n) = Inr icon" by (simp add: icon_for_def bind_def)
next
  assume "n \<notin> fst ` set WEATHER_CODE_ICONS"
  then have "map_of WEATHER_CODE_ICONS n = None" by (simp add: map_of_eq_None_iff)
  then show "icon_for (PInt n) = Inr ''01d''" by (simp add: icon_for_def bind_def)
next
  show "map_of WEATHER_CODE_ICONS 0 = Some ''01d''" by (simp add: WEATHER_CODE_ICONS_def)
  show "icon_for (PInt 100) = Inr ''01d''"
    by (simp add: icon_for_def bind_def WEATHER_CODE_ICONS_def)
  show "icon_for (PInt 61) = Inr ''10d''"
    by (simp add: icon_for_def bind_def WEATHER_CODE_ICONS_def)
qed

theorem current_day_icon_lookup_witness:
  "\<exists>params st'.
     parse_weather_data example_lib example_data example_air_quality id state0 = (Inr params, st') \<and>
     current_day_icon params = ''/plugins/weather_custom/icons/10d.png'' \<and>
     map_of WEATHER_CODE_ICONS 3 = Some ''04d'' \<and> icon_for (PInt 3) = Inr ''04d'' \<and>
     4 \<notin> fst ` set WEATHER_CODE_ICONS \<and> icon_for (PInt 4) = Inr ''01d''"
proof -
  from example_parse_weather_data obtain params st' where
    ok: "parse_weather_data example_lib example_data example_air_quality id state0 = (Inr params, st')"
    by blast
  from current_day_icon_lookup [THEN conjunct1, THEN mp, OF ok]
  obtain daily code icon where
    e: "getitem_key example_data ''daily'' = Inr daily" "item daily ''weathercode'' 0 = Inr code"
       "icon_for code = Inr icon"
       "current_day_icon params = get_plugin_dir example_lib (''icons/'' @ icon @ ''.png'')"
    by (elim exE conjE)
  have "getitem_key example_data ''daily'' = Inr example_daily" by (simp add: example_data_def)
  with e(1) have "daily = example_daily" by simp
  moreover have "item example_daily ''weathercode'' 0 = Inr (PInt 61)"
    by (simp add: example_daily_def item_def bind_def)
  ultimately have "code = PInt 61" using e(2) by simp
  moreover have "icon_for (PInt 61) = Inr ''10d''"
    by (rule current_day_icon_lookup [THEN conjunct2, THEN conjunct2, THEN conjunct2,
          THEN conjunct2, THEN conjunct2])
  ultimately have "icon = ''10d''" using e(3) by simp
  with e(4) have icon: "current_day_icon params = ''/plugins/weather_custom/icons/10d.png''"
    by (simp add: example_lib_def)
  have m: "map_of WEATHER_CODE_ICONS 3 = Some ''04d''" by (simp add: WEATHER_CODE_ICONS_def)
  have n: "4 \<notin> fst ` set WEATHER_CODE_ICONS" by (simp add: WEATHER_CODE_ICONS_def)
  from current_day_icon_lookup [THEN conjunct2, THEN conjunct1, THEN mp, OF m]
  have "icon_for (PInt 3) = Inr ''04d''" .
  moreover from current_day_icon_lookup [THEN conjunct2, THEN conjunct2, THEN conjunct1, THEN mp, OF n]
  have "icon_for (PInt 4) = Inr ''01d''" .
  ultimately show ?thesis using ok icon m n
    by (intro exI [of _ params] exI [of _ st']) simp
qed

text \<open>
  C10. When \<open>parse_weather_data\<close> returns, the location is the \<^verbatim>\<open>latitude\<close> and the
  \<^verbatim>\<open>longitude\<close> entries of the forecast response, each in the format \<^verbatim>\<open>.2f\<close>, joined by
  a comma and a space. The format prints a number rounded to hundredths with two digits
  after the point. The settings are no argument of \<open>parse_weather_data\<close>: in
  \<open>generate_image\<close> the rendered location comes from the body of the forecast response,
  whatever coordinates the settings hold.
\<close>

theorem location_from_response:
  "(parse_weather_data lib data air_quality tz st = (Inr params, st') \<longrightarrow>
      (\<exists>lat long lat_text long_text.
         getitem_key data ''latitude'' = Inr lat \<and> format_2f lat = Inr lat_text \<and>
         getitem_key data ''longitude'' = Inr long \<and> format_2f long = Inr long_text \<and>
         location params = lat_text @ '', '' @ long_text))
   \<and> (number v = Some q \<longrightarrow>
        (\<exists>n. format_2f v =
               Inr ((if q < 0 then ''-'' else []) @ show_nat (n div 100) @ ''.'' @
                    [digit_char (n mod 100 div 10), digit_char (n mod 10)]) \<and>
             \<bar>of_nat n - \<bar>q\<bar> * 100\<bar> \<le> 1 / 2))
   \<and> (generate_image lib w settings config st = (Inr img, st') \<longrightarrow>
        (\<exists>r body dimensions params lat long lat_text long_text.
           requests_get w (OPEN_METEO_URL (format_field w (settings_get settings ''latitude''))
                                          (format_field w (settings_get settings ''longitude''))) = Inr r \<and>
           json r = Inr body \<and>
           render_image w dimensions ''weather.html'' ''weather.css'' params settings = Inr (Some img) \<and>
           getitem_key body ''latitude'' = Inr lat \<and> format_2f lat = Inr lat_text \<and>
           getitem_key body ''longitude'' = Inr long \<and> format_2f long = Inr long_text \<and>
           location params = lat_text @ '', '' @ long_text))"
proof -
  have parse: "\<exists>lat long lat_text long_text.
         getitem_key data ''latitude'' = Inr lat \<and> format_2f lat = Inr lat_text \<and>
         getitem_key data ''longitude'' = Inr long \<and> format_2f long = Inr long_text \<and>
         location params = lat_text @ '', '' @ long_text"
    if "parse_weather_data lib data air_quality tz st = (Inr params, st')"
    for data air_quality tz st params st'
  proof -
    from that obtain current daily p dps where
      f: "weather_fields lib data tz = Inr (current, daily, p)" and
      params: "params = p\<lparr>data_points := dps\<rparr>"
      unfolding parse_weather_data_Inr by blast
    from f obtain lat long lat_text long_text where
      "getitem_key data ''latitude'' = Inr lat" "format_2f lat = Inr lat_text"
      "getitem_key data ''longitude'' = Inr long" "format_2f long = Inr long_text"
      "location p = lat_text @ '', '' @ long_text"
      unfolding weather_fields_Inr by auto
    with params show ?thesis
      by (intro exI [of _ lat] exI [of _ long] exI [of _ lat_text] exI [of _ long_text]) simp
  qed
  have fmt: "\<exists>n. format_2f v =
               Inr ((if q < 0 then ''-'' else []) @ show_nat (n div 100) @ ''.'' @
                    [digit_char (n mod 100 div 10), digit_char (n mod 10)]) \<and>
             \<bar>of_nat n - \<bar>q\<bar> * 100\<bar> \<le> 1 / 2"
    if "number v = Some q"
    using fmt_2f_digits [of q] format_2f_number [OF that] by simp
  have gen: "\<exists>r body dimensions params lat long lat_text long_text.
           requests_get w (OPEN_METEO_URL (format_field w (settings_get settings ''latitude''))
                                          (format_field w (settings_get settings ''longitude''))) = Inr r \<and>
           json r = Inr body \<and>
           render_image w dimensions ''weather.html'' ''weather.css'' params settings = Inr (Some img) \<and>
           getitem_key body ''latitude'' = Inr lat \<and> format_2f lat = Inr lat_text \<and>
           getitem_key body ''longitude'' = Inr long \<and> format_2f long = Inr long_text \<and>
           location params = lat_text @ '', '' @ long_text"
    if "generate_image lib w settings config st = (Inr img, st')"
  proof -
    from generate_image_Inr [OF that]
    obtain weather_data st1 air_quality_data st2 tz params dimensions where
      g: "get_weather_data w (settings_get settings ''latitude'') (settings_get settings ''longitude'') st
            = (Inr weather_data, st1)" and
      p: "parse_weather_data lib weather_data air_quality_data tz st2 = (Inr params, st')" and
      r: "render_image w dimensions ''weather.html'' ''weather.css'' params settings = Inr (Some img)"
      by blast
    from g obtain resp where
      resp: "requests_get w (OPEN_METEO_URL (format_field w (settings_get settings ''latitude''))
                                          (format_field w (settings_get settings ''longitude''))) = Inr resp"
        "json resp = Inr weather_data"
      unfolding get_weather_data_Inr by blast
    from parse [OF p] obtain lat long lat_text long_text where
      "getitem_key weather_data ''latitude'' = Inr lat" "format_2f lat = Inr lat_text"
      "getitem_key weather_data ''longitude'' = Inr long" "format_2f long = Inr long_text"
      "location params = lat_text @ '', '' @ long_text"
      by blast
    with resp r show ?thesis by blast
  qed
  from parse fmt gen show ?thesis by blast
qed

theorem location_from_response_witness:
  "\<exists>params st'.
     generate_image example_lib (example_world (Inr \<lparr>ok = True, content = [], json = Inr example_air_quality\<rparr>))
       example_settings example_config state0 = (Inr ((800, 480), params), st') \<and>
     example_settings ''latitude'' = Some (PStr ''52.52'') \<and>
     example_settings ''longitude'' = Some (PStr ''13.41'') \<and>
     getitem_key example_data ''latitude'' = Inr (PFloat (105 / 2)) \<and>
     getitem_key example_data ''longitude'' = Inr (PFloat (107 / 8)) \<and>
     location params = ''52.50, 13.38''"
proof -
  let ?air = "Inr \<lparr>ok = True, content = [], json = Inr example_air_quality\<rparr> :: pyerror + response"
  have "get_air_quality (example_world ?air) (PStr ''52.52'') (PStr ''13.41'')
             (state0\<lparr>requested := requested state0 @ [OPEN_METEO_URL ''52.52'' ''13.41'']\<rparr>) =
          (Inr example_air_quality,
           state0\<lparr>requested := requested state0 @ [OPEN_METEO_URL ''52.52'' ''13.41'']\<rparr>
             \<lparr>requested := requested (state0\<lparr>requested := requested state0 @ [OPEN_METEO_URL ''52.52'' ''13.41'']\<rparr>)
                 @ [AIR_QUALITY_URL ''52.52'' ''13.41'']\<rparr>)"
    unfolding get_air_quality_Inr
    by (simp add: example_world_def example_format_def example_requests_get_def
          OPEN_METEO_URL_def AIR_QUALITY_URL_def)
  from example_generate_image [OF this] obtain params st' where
    g: "generate_image example_lib (example_world ?air) example_settings example_config state0 =
          (Inr ((800, 480), params), st')"
    by blast
  from location_from_response [THEN conjunct2, THEN conjunct2, THEN mp, OF g]
  obtain r body dimensions p lat long lat_text long_text where
    r: "requests_get (example_world ?air)
          (OPEN_METEO_URL (format_field (example_world ?air) (settings_get example_settings ''latitude''))
                          (format_field (example_world ?air) (settings_get example_settings ''longitude''))) = Inr r"
       "json r = Inr body" and
    i: "render_image (example_world ?air) dimensions ''weather.html'' ''weather.css'' p example_settings
          = Inr (Some ((800, 480), params))" and
    l: "getitem_key body ''latitude'' = Inr lat" "format_2f lat = Inr lat_text"
       "getitem_key body ''longitude'' = Inr long" "format_2f long = Inr long_text"
       "location p = lat_text @ '', '' @ long_text"
    by (elim exE conjE)
  from i have "p = params" by (simp add: example_world_def)
  note l = l(1-4) l(5) [unfolded this]
  have s: "example_settings ''latitude'' = Some (PStr ''52.52'')"
    "example_settings ''longitude'' = Some (PStr ''13.41'')"
    by (simp_all add: example_settings_def)
  from r s have "body = example_data"
    by (auto simp: settings_get_def example_world_def example_format_def example_requests_get_def)
  moreover have d: "getitem_key example_data ''latitude'' = Inr (PFloat (105 / 2))"
    "getitem_key example_data ''longitude'' = Inr (PFloat (107 / 8))"
    by (simp_all add: example_data_def)
  ultimately have "lat = PFloat (105 / 2)" "long = PFloat (107 / 8)" using l(1,3) by simp_all
  moreover have "fmt_2f (105 / 2) = ''52.50''" "fmt_2f (107 / 8) = ''13.38''"
    by code_simp+
  ultimately have "lat_text = ''52.50''" "long_text = ''13.38''" using l(2,4) by simp_all
  with l(5) have "location params = ''52.50, 13.38''" by simp
  with g s d show ?thesis
    by (intro exI [of _ params] exI [of _ st']) simp
qed

text \<open>
  C6 (as amended). If \<^verbatim>\<open>latitude\<close> or \<^verbatim>\<open>longitude\<close> is absent from the settings,
  \<open>generate_image\<close> raises \<^verbatim>\<open>RuntimeError\<close> and the state is unchanged: no HTTP request
  has been issued. If both are present and true in a Boolean test, the forecast request
  is issued first, and the air-quality request after it when the forecast fetch returns
  data; when the forecast fetch raises, its exception is the result and the forecast
  request is the only one.

  The claim as stated (with both present the fetches proceed) fails for a coordinate that
  is present and false in a Boolean test, as the evaluation further down shows.
\<close>

theorem coordinates_required:
  "(settings ''latitude'' = None \<or> settings ''longitude'' = None \<longrightarrow>
      generate_image lib w settings config st =
        (Inl (RuntimeError ''Latitude and Longitude are required.''), st))
   \<and> (truthy (settings_get settings ''latitude'') \<and> truthy (settings_get settings ''longitude'') \<longrightarrow>
        (\<exists>res st'. generate_image lib w settings config st = (res, st') \<and>
           (case get_weather_data w (settings_get settings ''latitude'')
                   (settings_get settings ''longitude'') st of
              (Inl e, st1) \<Rightarrow>
                res = Inl e \<and>
                requested st' = requested st @
                  [OPEN_METEO_URL (format_field w (settings_get settings ''latitude''))
                                  (format_field w (settings_get settings ''longitude''))]
            | (Inr d, st1) \<Rightarrow>
                requested st' = requested st @
                  [OPEN_METEO_URL (format_field w (settings_get settings ''latitude''))
                                  (format_field w (settings_get settings ''longitude'')),
                   AIR_QUALITY_URL (format_field w (settings_get settings ''latitude''))
                                   (format_field w (settings_get settings ''longitude''))])))"
proof (intro conjI impI)
  assume "settings ''latitude'' = None \<or> settings ''longitude'' = None"
  then have "\<not> truthy (settings_get settings ''latitude'') \<or> \<not> truthy (settings_get settings ''longitude'')"
    by (auto dest: settings_get_absent)
  then show "generate_image lib w settings config st =
        (Inl (RuntimeError ''Latitude and Longitude are required.''), st)"
    by (rule generate_image_falsy)
next
  assume t: "truthy (settings_get settings ''latitude'') \<and> truthy (settings_get settings ''longitude'')"
  obtain res st' where g: "generate_image lib w settings config st = (res, st')"
    using generate_image_total by blast
  obtain r1 st1 where w: "get_weather_data w (settings_get settings ''latitude'')
                   (settings_get settings ''longitude'') st = (r1, st1)"
    by (cases "get_weather_data w (settings_get settings ''latitude'') (settings_get settings ''longitude'') st")
  have "case (r1, st1) of
              (Inl e, st1) \<Rightarrow>
                res = Inl e \<and>
                requested st' = requested st @
                  [OPEN_METEO_URL (format_field w (settings_get settings ''latitude''))
                                  (format_field w (settings_get settings ''longitude''))]
            | (Inr d, st1) \<Rightarrow>
                requested st' = requested st @
                  [OPEN_METEO_URL (format_field w (settings_get settings ''latitude''))
                                  (format_field w (settings_get settings ''longitude'')),
                   AIR_QUALITY_URL (format_field w (settings_get settings ''latitude''))
                                   (format_field w (settings_get settings ''longitude''))]"
  proof (cases r1)
    case (Inl e)
    with t w have "generate_image lib w settings config st = (Inl e, st1)"
      by (intro generate_image_weather_failed) simp_all
    with g have "res = Inl e" "st' = st1" by simp_all
    with Inl get_weather_data_requested [OF w] show ?thesis by simp
  next
    case (Inr d)
    with t w g generate_image_requested [of settings w st d st1 lib config res st']
    show ?thesis by simp
  qed
  with g w show "\<exists>res st'. generate_image lib w settings config st = (res, st') \<and>
           (case get_weather_data w (settings_get settings ''latitude'')
                   (settings_get settings ''longitude'') st of
              (Inl e, st1) \<Rightarrow>
                res = Inl e \<and>
                requested st' = requested st @
                  [OPEN_METEO_URL (format_field w (settings_get settings ''latitude''))
                                  (format_field w (settings_get settings ''longitude''))]
            | (Inr d, st1) \<Rightarrow>
                requested st' = requested st @
                  [OPEN_METEO_URL (format_field w (settings_get settings ''latitude''))
                                  (format_field w (settings_get settings ''longitude'')),
                   AIR_QUALITY_URL (format_field w (settings_get settings ''latitude''))
                                   (format_field w (settings_get settings ''longitude''))])"
    by (intro exI [of _ res] exI [of _ st']) simp
qed

theorem coordinates_required_witness:
  "generate_image example_lib (example_world example_air_ok) (map_of [(''longitude'', PStr ''13.41'')])
     example_config state0 = (Inl (RuntimeError ''Latitude and Longitude are required.''), state0)
   \<and> requested state0 = []
   \<and> (\<exists>res st'. generate_image example_lib (example_world example_air_ok) example_settings
          example_config state0 = (res, st') \<and>
        requested st' = [OPEN_METEO_URL ''52.52'' ''13.41'', AIR_QUALITY_URL ''52.52'' ''13.41''])"
proof (intro conjI)
  have "map_of [(''longitude'', PStr ''13.41'')] ''latitude'' = None \<or>
        map_of [(''longitude'', PStr ''13.41'')] ''longitude'' = None" by simp
  from coordinates_required [THEN conjunct1, THEN mp, OF this]
  show "generate_image example_lib (example_world example_air_ok) (map_of [(''longitude'', PStr ''13.41'')])
     example_config state0 = (Inl (RuntimeError ''Latitude and Longitude are required.''), state0)" .
  show "requested state0 = []" by (simp add: state0_def)
  have s: "settings_get example_settings ''latitude'' = PStr ''52.52''"
    "settings_get example_settings ''longitude'' = PStr ''13.41''"
    by (simp_all add: settings_get_def example_settings_def)
  then have "truthy (settings_get example_settings ''latitude'') \<and>
             truthy (settings_get example_settings ''longitude'')" by simp
  from coordinates_required [THEN conjunct2, THEN mp, OF this,
      of example_lib "example_world example_air_ok" example_config state0]
  show "\<exists>res st'. generate_image example_lib (example_world example_air_ok) example_settings
          example_config state0 = (res, st') \<and>
        requested st' = [OPEN_METEO_URL ''52.52'' ''13.41'', AIR_QUALITY_URL ''52.52'' ''13.41'']"
    unfolding s example_get_weather_data
    by (simp add: state0_def example_world_def example_format_def)
qed

text \<open>
  Counterexample to C6 as stated. Latitude \<^verbatim>\<open>0\<close> and longitude \<^verbatim>\<open>"13.41"\<close> are both
  present in the settings, and \<open>generate_image\<close> raises without a request.
\<close>

theorem coordinates_present_counterexample:
  "example_settings_zero ''latitude'' = Some (PInt 0)
   \<and> example_settings_zero ''longitude'' = Some (PStr ''13.41'')
   \<and> generate_image example_lib (example_world example_air_ok) example_settings_zero example_config state0
       = (Inl (RuntimeError ''Latitude and Longitude are required.''), state0)
   \<and> requested state0 = []"
proof (intro conjI)
  show s: "example_settings_zero ''latitude'' = Some (PInt 0)"
    "example_settings_zero ''longitude'' = Some (PStr ''13.41'')"
    by (simp_all add: example_settings_zero_def)
  from s(1) have "\<not> truthy (settings_get example_settings_zero ''latitude'')"
    by (simp add: settings_get_def)
  then show "generate_image example_lib (example_world example_air_ok) example_settings_zero example_config state0
       = (Inl (RuntimeError ''Latitude and Longitude are required.''), state0)"
    by (intro generate_image_falsy) simp
  show "requested state0 = []" by (simp add: state0_def)
qed

text \<open>
  C9. If \<^verbatim>\<open>latitude\<close> or \<^verbatim>\<open>longitude\<close> is present in the settings with a value that is
  false in a Boolean test, such as the number 0, the float 0.0 or the empty string,
  \<open>generate_image\<close> raises the error it raises for an absent coordinate, and the state
  is unchanged: no HTTP request has been issued.
\<close>

theorem falsy_coordinates_rejected:
  "((\<exists>v. settings ''latitude'' = Some v \<and> \<not> truthy v) \<or>
    (\<exists>v. settings ''longitude'' = Some v \<and> \<not> truthy v) \<longrightarrow>
      generate_image lib w settings config st =
        (Inl (RuntimeError ''Latitude and Longitude are required.''), st))
   \<and> (settings ''latitude'' = None \<longrightarrow>
        generate_image lib w settings config st =
          (Inl (RuntimeError ''Latitude and Longitude are required.''), st))
   \<and> \<not> truthy (PInt 0) \<and> \<not> truthy (PFloat 0) \<and> \<not> truthy (PStr [])"
proof (intro conjI impI)
  assume "(\<exists>v. settings ''latitude'' = Some v \<and> \<not> truthy v) \<or>
    (\<exists>v. settings ''longitude'' = Some v \<and> \<not> truthy v)"
  then have "\<not> truthy (settings_get settings ''latitude'') \<or> \<not> truthy (settings_get settings ''longitude'')"
    by (auto simp: settings_get_present)
  then show "generate_image lib w settings config st =
        (Inl (RuntimeError ''Latitude and Longitude are required.''), st)"
    by (rule generate_image_falsy)
next
  assume "settings ''latitude'' = None"
  then have "\<not> truthy (settings_get settings ''latitude'')" by (rule settings_get_absent)
  then show "generate_image lib w settings config st =
        (Inl (RuntimeError ''Latitude and Longitude are required.''), st)"
    by (intro generate_image_falsy) simp
qed simp_all

theorem falsy_coordinates_rejected_witness:
  "example_settings_zero ''latitude'' = Some (PInt 0) \<and> \<not> truthy (PInt 0)
   \<and> generate_image example_lib (example_world example_air_ok) example_settings_zero example_config
        (state0\<lparr>requested := [''earlier'']\<rparr>)
       = (Inl (RuntimeError ''Latitude and Longitude are required.''), state0\<lparr>requested := [''earlier'']\<rparr>)"
proof -
  have s: "example_settings_zero ''latitude'' = Some (PInt 0)"
    by (simp add: example_settings_zero_def)
  then have "(\<exists>v. example_settings_zero ''latitude'' = Some v \<and> \<not> truthy v) \<or>
    (\<exists>v. example_settings_zero ''longitude'' = Some v \<and> \<not> truthy v)" by simp
  from falsy_coordinates_rejected [THEN conjunct1, THEN mp, OF this] s
  show ?thesis by simp
qed

text \<open>
  C7. When the forecast request is answered with a status that is not a success,
  \<open>get_weather_data\<close> logs the body and raises \<^verbatim>\<open>RuntimeError("Failed to fetch weather
  data.")\<close>; whenever it returns a value, the response was a success and the value is
  its decoded body. In \<open>generate_image\<close> the exception ends the call: the forecast
  request is the only request issued, and nothing is parsed or rendered.
\<close>

theorem forecast_failure_is_fatal:
  "(requests_get w (OPEN_METEO_URL (format_field w lat) (format_field w long)) = Inr r \<and> \<not> ok r \<longrightarrow>
      get_weather_data w lat long st =
        (Inl (RuntimeError ''Failed to fetch weather data.''),
         log_error ''Failed to fetch weather data: '' (content r)
           (st\<lparr>requested := requested st @ [OPEN_METEO_URL (format_field w lat) (format_field w long)]\<rparr>)))
   \<and> (get_weather_data w lat long st = (Inr d, st') \<longrightarrow>
        (\<exists>r'. requests_get w (OPEN_METEO_URL (format_field w lat) (format_field w long)) = Inr r' \<and>
           ok r' \<and> json r' = Inr d))
   \<and> (truthy (settings_get settings ''latitude'') \<and> truthy (settings_get settings ''longitude'') \<and>
       requests_get w (OPEN_METEO_URL (format_field w (settings_get settings ''latitude''))
                                      (format_field w (settings_get settings ''longitude''))) = Inr r \<and>
       \<not> ok r \<longrightarrow>
        generate_image lib w settings config st =
          (Inl (RuntimeError ''Failed to fetch weather data.''),
           log_error ''Failed to fetch weather data: '' (content r)
             (st\<lparr>requested := requested st @
                [OPEN_METEO_URL (format_field w (settings_get settings ''latitude''))
                                (format_field w (settings_get settings ''longitude''))]\<rparr>)))"
proof (intro conjI impI)
  assume "requests_get w (OPEN_METEO_URL (format_field w lat) (format_field w long)) = Inr r \<and> \<not> ok r"
  then show "get_weather_data w lat long st =
        (Inl (RuntimeError ''Failed to fetch weather data.''),
         log_error ''Failed to fetch weather data: '' (content r)
           (st\<lparr>requested := requested st @ [OPEN_METEO_URL (format_field w lat) (format_field w long)]\<rparr>))"
    by (intro get_weather_data_failed) simp_all
next
  assume "get_weather_data w lat long st = (Inr d, st')"
  then show "\<exists>r'. requests_get w (OPEN_METEO_URL (format_field w lat) (format_field w long)) = Inr r' \<and>
           ok r' \<and> json r' = Inr d"
    unfolding get_weather_data_Inr by blast
next
  assume a: "truthy (settings_get settings ''latitude'') \<and> truthy (settings_get settings ''longitude'') \<and>
       requests_get w (OPEN_METEO_URL (format_field w (settings_get settings ''latitude''))
                                      (format_field w (settings_get settings ''longitude''))) = Inr r \<and>
       \<not> ok r"
  then have "get_weather_data w (settings_get settings ''latitude'') (settings_get settings ''longitude'') st =
        (Inl (RuntimeError ''Failed to fetch weather data.''),
         log_error ''Failed to fetch weather data: '' (content r)
           (st\<lparr>requested := requested st @
                [OPEN_METEO_URL (format_field w (settings_get settings ''latitude''))
                                (format_field w (settings_get settings ''longitude''))]\<rparr>))"
    by (intro get_weather_data_failed) simp_all
  with a show "generate_image lib w settings config st =
          (Inl (RuntimeError ''Failed to fetch weather data.''),
           log_error ''Failed to fetch weather data: '' (content r)
             (st\<lparr>requested := requested st @
                [OPEN_METEO_URL (format_field w (settings_get settings ''latitude''))
                                (format_field w (settings_get settings ''longitude''))]\<rparr>))"
    by (intro generate_image_weather_failed) simp_all
qed

theorem forecast_failure_is_fatal_witness:
  "generate_image example_lib example_world_forecast_down example_settings example_config state0 =
     (Inl (RuntimeError ''Failed to fetch weather data.''),
      \<lparr>requested = [OPEN_METEO_URL ''52.52'' ''13.41''],
       logged = [LogError ''Failed to fetch weather data: '' ''Bad Gateway'']\<rparr>)
   \<and> (\<exists>r'. requests_get (example_world example_air_ok) (OPEN_METEO_URL ''52.52'' ''13.41'') = Inr r' \<and>
          ok r' \<and> json r' = Inr example_data)"
proof
  have s: "settings_get example_settings ''latitude'' = PStr ''52.52''"
    "settings_get example_settings ''longitude'' = PStr ''13.41''"
    by (simp_all add: settings_get_def example_settings_def)
  have "truthy (settings_get example_settings ''latitude'') \<and>
        truthy (settings_get example_settings ''longitude'') \<and>
        requests_get example_world_forecast_down
          (OPEN_METEO_URL (format_field example_world_forecast_down (settings_get example_settings ''latitude''))
             (format_field example_world_forecast_down (settings_get example_settings ''longitude'')))
          = Inr \<lparr>ok = False, content = ''Bad Gateway'', json = Inl JSONDecodeError\<rparr> \<and>
        \<not> ok \<lparr>ok = False, content = ''Bad Gateway'', json = Inl JSONDecodeError\<rparr>"
    by (simp add: s example_world_forecast_down_def)
  from forecast_failure_is_fatal [THEN conjunct2, THEN conjunct2, THEN mp, OF this,
      of example_lib example_config state0]
  show "generate_image example_lib example_world_forecast_down example_settings example_config state0 =
     (Inl (RuntimeError ''Failed to fetch weather data.''),
      \<lparr>requested = [OPEN_METEO_URL ''52.52'' ''13.41''],
       logged = [LogError ''Failed to fetch weather data: '' ''Bad Gateway'']\<rparr>)"
    by (simp add: s example_world_forecast_down_def example_world_def example_format_def
          log_error_def state0_def)
next
  have "get_weather_data (example_world example_air_ok) (PStr ''52.52'') (PStr ''13.41'') state0 =
     (Inr example_data, state0\<lparr>requested := requested state0 @ [OPEN_METEO_URL ''52.52'' ''13.41'']\<rparr>)"
    by (rule example_get_weather_data)
  from forecast_failure_is_fatal [THEN conjunct2, THEN conjunct1, THEN mp, OF this]
  show "\<exists>r'. requests_get (example_world example_air_ok) (OPEN_METEO_URL ''52.52'' ''13.41'') = Inr r' \<and>
          ok r' \<and> json r' = Inr example_data"
    by (simp add: example_world_def example_format_def)
qed

text \<open>
  C5 (as amended). When the air-quality request is answered with a status that is not a
  success, \<open>get_air_quality\<close> logs the body and returns \<^verbatim>\<open>None\<close> instead of raising. With
  \<^verbatim>\<open>None\<close> for the air quality, the data points are the seven fixed entries, none of
  them labelled "Air Quality". When an air-quality value is there and extracting the AQI
  from it raises, the exception is caught and logged as a warning, and the data points
  are the same seven entries. So the air-quality value has no part in whether
  \<open>parse_data_points\<close> or \<open>parse_weather_data\<close> raise; and when the air-quality status is
  not a success while the forecast parses and the renderer gives an image,
  \<open>generate_image\<close> returns that image, rendered without an "Air Quality" entry.

  The claim as stated (air quality never makes the render call fail) fails when the
  air-quality response is a success whose body \<^verbatim>\<open>json()\<close> cannot decode, as the
  evaluation further down shows.
\<close>

theorem air_quality_soft_failure:
  "(requests_get w (AIR_QUALITY_URL (format_field w lat) (format_field w long)) = Inr r \<and> \<not> ok r \<longrightarrow>
      get_air_quality w lat long st =
        (Inr PNone,
         log_error ''Failed to fetch air quality data: '' (content r)
           (st\<lparr>requested := requested st @ [AIR_QUALITY_URL (format_field w lat) (format_field w long)]\<rparr>)))
   \<and> (parse_data_points lib current daily tz PNone st = (Inr dps, st') \<longrightarrow>
        (\<forall>p\<in>set dps. dp_label p \<noteq> ''Air Quality'') \<and> st' = st)
   \<and> (base_data_points lib current daily tz = Inr base \<and> truthy aq \<and>
       aqi_data_point lib aq = Inl e \<longrightarrow>
        parse_data_points lib current daily tz aq st =
          (Inr base, log_warning ''Failed to parse AQI: '' e st) \<and>
        (\<forall>p\<in>set base. dp_label p \<noteq> ''Air Quality''))
   \<and> ((\<exists>e. fst (parse_data_points lib current daily tz aq st) = Inl e) \<longleftrightarrow>
        (\<exists>e. fst (parse_data_points lib current daily tz PNone st) = Inl e))
   \<and> ((\<exists>e. fst (parse_weather_data lib data aq tz st) = Inl e) \<longleftrightarrow>
        (\<exists>e. fst (parse_weather_data lib data PNone tz st) = Inl e))
   \<and> (truthy (settings_get settings ''latitude'') \<and> truthy (settings_get settings ''longitude'') \<and>
       get_weather_data w (settings_get settings ''latitude'') (settings_get settings ''longitude'') st
         = (Inr data, st1) \<and>
       requests_get w (AIR_QUALITY_URL (format_field w (settings_get settings ''latitude''))
                                       (format_field w (settings_get settings ''longitude''))) = Inr r \<and>
       \<not> ok r \<and>
       dict_get data ''timezone''
         (case get_config config ''timezone'' of None \<Rightarrow> PStr ''UTC'' | Some v \<Rightarrow> v) = Inr name \<and>
       pytz_timezone w name = Inr tz \<and>
       weather_fields lib data tz = Inr (current, daily, params) \<and>
       base_data_points lib current daily tz = Inr base \<and>
       render_image w
         (if get_config config ''orientation'' = Some (PStr ''vertical'')
          then (snd (get_resolution config), fst (get_resolution config)) else get_resolution config)
         ''weather.html'' ''weather.css'' (params\<lparr>data_points := base\<rparr>) settings = Inr (Some img)
       \<longrightarrow>
        generate_image lib w settings config st =
          (Inr img,
           log_error ''Failed to fetch air quality data: '' (content r)
             (st1\<lparr>requested := requested st1 @
                [AIR_QUALITY_URL (format_field w (settings_get settings ''latitude''))
                                 (format_field w (settings_get settings ''longitude''))]\<rparr>)) \<and>
        (\<forall>p\<in>set base. dp_label p \<noteq> ''Air Quality''))"
proof (intro conjI impI)
  assume "requests_get w (AIR_QUALITY_URL (format_field w lat) (format_field w long)) = Inr r \<and> \<not> ok r"
  then show "get_air_quality w lat long st =
        (Inr PNone,
         log_error ''Failed to fetch air quality data: '' (content r)
           (st\<lparr>requested := requested st @ [AIR_QUALITY_URL (format_field w lat) (format_field w long)]\<rparr>))"
    by (intro get_air_quality_failed) simp_all
next
  assume p: "parse_data_points lib current daily tz PNone st = (Inr dps, st')"
  then have b: "base_data_points lib current daily tz = Inr dps" and s: "st' = st"
    unfolding parse_data_points_Inr by simp_all
  from b show "\<forall>p\<in>set dps. dp_label p \<noteq> ''Air Quality''"
    by (intro labels_no_air_quality base_data_points_labels)
  from s show "st' = st" .
next
  assume a: "base_data_points lib current daily tz = Inr base \<and> truthy aq \<and>
       aqi_data_point lib aq = Inl e"
  then show "parse_data_points lib current daily tz aq st =
          (Inr base, log_warning ''Failed to parse AQI: '' e st)"
    by (intro parse_data_points_caught) simp_all
  from a have "base_data_points lib current daily tz = Inr base" by simp
  then show "\<forall>p\<in>set base. dp_label p \<noteq> ''Air Quality''"
    by (intro labels_no_air_quality base_data_points_labels)
next
  show "(\<exists>e. fst (parse_data_points lib current daily tz aq st) = Inl e) \<longleftrightarrow>
        (\<exists>e. fst (parse_data_points lib current daily tz PNone st) = Inl e)"
    unfolding parse_data_points_raises ..
next
  show "(\<exists>e. fst (parse_weather_data lib data aq tz st) = Inl e) \<longleftrightarrow>
        (\<exists>e. fst (parse_weather_data lib data PNone tz st) = Inl e)"
    unfolding parse_weather_data_raises ..
next
  assume a: "truthy (settings_get settings ''latitude'') \<and> truthy (settings_get settings ''longitude'') \<and>
       get_weather_data w (settings_get settings ''latitude'') (settings_get settings ''longitude'') st
         = (Inr data, st1) \<and>
       requests_get w (AIR_QUALITY_URL (format_field w (settings_get settings ''latitude''))
                                       (format_field w (settings_get settings ''longitude''))) = Inr r \<and>
       \<not> ok r \<and>
       dict_get data ''timezone''
         (case get_config config ''timezone'' of None \<Rightarrow> PStr ''UTC'' | Some v \<Rightarrow> v) = Inr name \<and>
       pytz_timezone w name = Inr tz \<and>
       weather_fields lib data tz = Inr (current, daily, params) \<and>
       base_data_points lib current daily tz = Inr base \<and>
       render_image w
         (if get_config config ''orientation'' = Some (PStr ''vertical'')
          then (snd (get_resolution config), fst (get_resolution config)) else get_resolution config)
         ''weather.html'' ''weather.css'' (params\<lparr>data_points := base\<rparr>) settings = Inr (Some img)"
  let ?st2 = "log_error ''Failed to fetch air quality data: '' (content r)
             (st1\<lparr>requested := requested st1 @
                [AIR_QUALITY_URL (format_field w (settings_get settings ''latitude''))
                                 (format_field w (settings_get settings ''longitude''))]\<rparr>)"
  from a have aq: "get_air_quality w (settings_get settings ''latitude'')
      (settings_get settings ''longitude'') st1 = (Inr PNone, ?st2)"
    by (intro get_air_quality_failed) simp_all
  from a have "parse_data_points lib current daily tz PNone ?st2 = (Inr base, ?st2)"
    by (intro parse_data_points_none) simp
  with a have p: "parse_weather_data lib data PNone tz ?st2 = (Inr (params\<lparr>data_points := base\<rparr>), ?st2)"
    by (simp add: parse_weather_data_def)
  from a aq p show "generate_image lib w settings config st = (Inr img, ?st2)"
    by (simp add: generate_image_def Let_def)
  from a have "base_data_points lib current daily tz = Inr base" by simp
  then show "\<forall>p\<in>set base. dp_label p \<noteq> ''Air Quality''"
    by (intro labels_no_air_quality base_data_points_labels)
qed

text \<open>
  Counterexample to C5 as stated. The air-quality endpoint answers with a success status
  and a body that is not JSON: \<^verbatim>\<open>response.json()\<close> raises in \<open>get_air_quality\<close>, nothing
  catches it, and the render call fails although the forecast was fetched.
\<close>

theorem air_quality_undecodable_counterexample:
  "requests_get (example_world example_air_undecodable) (AIR_QUALITY_URL ''52.52'' ''13.41'') =
     Inr \<lparr>ok = True, content = ''<html>'', json = Inl JSONDecodeError\<rparr>
   \<and> generate_image example_lib (example_world example_air_undecodable) example_settings
        example_config state0 =
       (Inl JSONDecodeError,
        \<lparr>requested = [OPEN_METEO_URL ''52.52'' ''13.41'', AIR_QUALITY_URL ''52.52'' ''13.41''],
         logged = []\<rparr>)"
proof
  show r: "requests_get (example_world example_air_undecodable) (AIR_QUALITY_URL ''52.52'' ''13.41'') =
     Inr \<lparr>ok = True, content = ''<html>'', json = Inl JSONDecodeError\<rparr>"
    by (simp add: example_air_quality_url example_air_undecodable_def)
  have "get_air_quality (example_world example_air_undecodable) (PStr ''52.52'') (PStr ''13.41'')
          (state0\<lparr>requested := requested state0 @ [OPEN_METEO_URL ''52.52'' ''13.41'']\<rparr>) =
        (Inl JSONDecodeError,
         \<lparr>requested = [OPEN_METEO_URL ''52.52'' ''13.41'', AIR_QUALITY_URL ''52.52'' ''13.41''],
          logged = []\<rparr>)"
    by (simp add: get_air_quality_def http_get_def example_format_field r state0_def)
  then show "generate_image example_lib (example_world example_air_undecodable) example_settings
        example_config state0 =
       (Inl JSONDecodeError,
        \<lparr>requested = [OPEN_METEO_URL ''52.52'' ''13.41'', AIR_QUALITY_URL ''52.52'' ''13.41''],
         logged = []\<rparr>)"
    by (simp add: generate_image_def Let_def example_settings_get example_get_weather_data)
qed

theorem air_quality_soft_failure_witness:
  "\<exists>params base.
     weather_fields example_lib example_data id = Inr (example_current, example_daily, params) \<and>
     base_data_points example_lib example_current example_daily id = Inr base \<and>
     map dp_label base = [''Sunrise'', ''Sunset'', ''Wind'', ''Humidity'', ''Pressure'', ''UV Index'', ''Rain''] \<and>
     generate_image example_lib (example_world example_air_failed) example_settings example_config state0 =
       (Inr ((800, 480), params\<lparr>data_points := base\<rparr>),
        \<lparr>requested = [OPEN_METEO_URL ''52.52'' ''13.41'', AIR_QUALITY_URL ''52.52'' ''13.41''],
         logged = [LogError ''Failed to fetch air quality data: '' ''Service Unavailable'']\<rparr>) \<and>
     truthy example_air_quality_empty \<and>
     aqi_data_point example_lib example_air_quality_empty = Inl IndexError \<and>
     parse_data_points example_lib example_current example_daily id example_air_quality_empty state0 =
       (Inr base, \<lparr>requested = [], logged = [LogWarning ''Failed to parse AQI: '' IndexError]\<rparr>)"
proof -
  from example_weather_fields obtain params where
    f: "weather_fields example_lib example_data id = Inr (example_current, example_daily, params)" ..
  from example_base_data_points obtain base where
    b: "base_data_points example_lib example_current example_daily id = Inr base" ..
  note l = base_data_points_labels [OF b]
  let ?r = "\<lparr>ok = False, content = ''Service Unavailable'', json = Inl JSONDecodeError\<rparr>"
  let ?w = "example_world example_air_failed"
  let ?st1 = "state0\<lparr>requested := requested state0 @ [OPEN_METEO_URL ''52.52'' ''13.41'']\<rparr>"
  have r: "requests_get ?w (AIR_QUALITY_URL ''52.52'' ''13.41'') = Inr ?r"
    by (simp add: example_air_quality_url example_air_failed_def)
  have tz: "dict_get example_data ''timezone''
        (case get_config example_config ''timezone'' of None \<Rightarrow> PStr ''UTC'' | Some v \<Rightarrow> v) =
        Inr (PStr ''Europe/Berlin'')"
    by (simp add: example_data_def example_config_def)
  have z: "pytz_timezone ?w (PStr ''Europe/Berlin'') = Inr id" by (simp add: example_world_def)
  have i: "render_image ?w
         (if get_config example_config ''orientation'' = Some (PStr ''vertical'')
          then (snd (get_resolution example_config), fst (get_resolution example_config))
          else get_resolution example_config)
         ''weather.html'' ''weather.css'' (params\<lparr>data_points := base\<rparr>) example_settings =
       Inr (Some ((800, 480), params\<lparr>data_points := base\<rparr>))"
    by (simp add: example_world_def example_config_def)
  have g: "generate_image example_lib ?w example_settings example_config state0 =
       (Inr ((800, 480), params\<lparr>data_points := base\<rparr>),
        \<lparr>requested = [OPEN_METEO_URL ''52.52'' ''13.41'', AIR_QUALITY_URL ''52.52'' ''13.41''],
         logged = [LogError ''Failed to fetch air quality data: '' ''Service Unavailable'']\<rparr>)"
    using air_quality_soft_failure [where w = "?w" and settings = example_settings and st = state0
        and data = example_data and ?st1.0 = "?st1" and r = "?r" and config = example_config
        and name = "PStr ''Europe/Berlin''" and tz = id and lib = example_lib
        and current = example_current and daily = example_daily and params = params and base = base
        and img = "((800, 480), params\<lparr>data_points := base\<rparr>)",
        THEN conjunct2, THEN conjunct2, THEN conjunct2, THEN conjunct2, THEN conjunct2]
      f b r tz z i
    by (simp add: example_settings_get example_format_field example_get_weather_data
          log_error_def state0_def)
  have t: "truthy example_air_quality_empty" by (simp add: example_air_quality_empty_def)
  have e: "aqi_data_point example_lib example_air_quality_empty = Inl IndexError"
    by (simp add: aqi_data_point_def example_air_quality_empty_def bind_def item_def)
  from b t e have "base_data_points example_lib example_current example_daily id = Inr base \<and>
       truthy example_air_quality_empty \<and>
       aqi_data_point example_lib example_air_quality_empty = Inl IndexError" by simp
  from air_quality_soft_failure [THEN conjunct2, THEN conjunct2, THEN conjunct1, THEN mp, OF this,
      of state0]
  have c: "parse_data_points example_lib example_current example_daily id example_air_quality_empty state0 =
       (Inr base, \<lparr>requested = [], logged = [LogWarning ''Failed to parse AQI: '' IndexError]\<rparr>)"
    by (simp add: log_warning_def state0_def)
  from f b l g t e c show ?thesis
    by (intro exI [of _ params] exI [of _ base] conjI)
qed

end
